theory Spec2Isabelle
  imports Complex_Main "HOL-Library.Multiset" "HOL-Library.AList" "HOL-Library.List_Lexorder" "HOL-Library.Char_ord"
    "HOL-Library.Log_Nat"
begin

section \<open>Numbers and result dictionaries\<close>

text \<open>
  A Python float is a double; the model has it as the rational number it is (type
  \<open>rat\<close>). \<open>int(round(x))\<close> is Python's rounding to the nearest integer with ties
  going to the even neighbour.
\<close>

definition py_round :: "rat \<Rightarrow> int" where
  "py_round x =
     (let f = \<lfloor>x\<rfloor>; d = x - of_int f
      in if d < 1 / 2 then f
         else if 1 / 2 < d then f + 1
         else if even f then f else f + 1)"

text \<open>
  Binary64 arithmetic: \<open>fl\<close> rounds a number to the nearest double, ties to the even
  significand (53 bits, with the exponent \<open>exponent_of\<close>; overflow and subnormal numbers
  are left out). A float operation of the source is the exact operation followed by
  \<open>fl\<close>. The scorer, the mean of the orchestrator and \<open>calculate_gini_binary64\<close>
  are modelled this way, operation by operation. The metrics of the analyzers are computed in exact arithmetic instead: they
  go through \<open>sum\<close>, \<open>**\<close> and numpy reductions, whose rounding depends on the
  library, so a metric of the model can differ from the computed one by a rounding error
  (and a threshold or a \<open>round\<close> that sits exactly on it can fall the other way).
\<close>

definition pow2 :: "int \<Rightarrow> rat" where
  "pow2 e = (if 0 \<le> e then 2 ^ nat e else 1 / 2 ^ nat (- e))"

definition exponent_of :: "rat \<Rightarrow> int" where
  "exponent_of x =
     (let pq = quotient_of \<bar>x\<bar>;
          d = bitlen (fst pq) - bitlen (snd pq)
      in if pow2 d \<le> \<bar>x\<bar> then d else d - 1)"

definition fl :: "rat \<Rightarrow> rat" where
  "fl x = (if x = 0 then 0
           else (let u = pow2 (exponent_of x - 52) in of_int (py_round (x / u)) * u))"

text \<open>\<open>round(x, k)\<close>: the same rounding at \<open>k\<close> decimal places.\<close>

definition py_round_ndigits :: "rat \<Rightarrow> nat \<Rightarrow> rat" where
  "py_round_ndigits x k = of_int (py_round (x * 10 ^ k)) / 10 ^ k"

text \<open>\<open>str.upper()\<close> on ASCII letters: a lower-case letter loses the bit of weight 32.\<close>

definition upper_char :: "char \<Rightarrow> char" where
  "upper_char c =
     (if 97 \<le> (of_char c :: nat) \<and> (of_char c :: nat) \<le> 122
      then (case c of Char b0 b1 b2 b3 b4 b5 b6 b7 \<Rightarrow> Char b0 b1 b2 b3 b4 False b6 b7)
      else c)"

definition upper :: "string \<Rightarrow> string" where
  "upper s = map upper_char s"

text \<open>
  JSON-shaped Python values (\<open>JNone\<close> is \<open>None\<close>); a dict keeps its insertion order.
\<close>

datatype jvalue =
    JNone
  | JBool bool
  | JNum rat
  | JInt int
  | JStr string
  | JList "jvalue list"
  | JDict "(string \<times> jvalue) list"

text \<open>
  The dictionary every analyzer returns and the scorer reads. The three keys the rest of
  the program looks up are fields of their own; \<open>None\<close> means the key is absent, as
  \<open>dict.get\<close> sees it. The remaining keys are kept in \<open>metrics\<close>, in insertion order.
\<close>

record analyzer_result =
  error :: "string option"
  risk_flags :: "string list option"
  risk_score :: "rat option"
  metrics :: "(string \<times> jvalue) list"

section \<open>RiskScorer (tools/risk_scorer.py)\<close>

record weights =
  w_concentration :: rat
  w_liquidity_depth :: rat
  w_market_risk :: rat
  w_behavioral :: rat

record bounds =
  b_min :: rat
  b_max :: rat

text \<open>\<open>risk_levels\<close> is a dict; iteration follows insertion order, so it is a list of pairs.\<close>

record scoring_config =
  weights :: weights
  risk_levels :: "(string \<times> bounds) list"

record composite_result =
  composite_score :: int
  risk_level :: string
  composite_flags :: "string list"
  component_scores :: "rat \<times> rat \<times> rat \<times> rat"
  raw_metrics :: "analyzer_result \<times> analyzer_result \<times> analyzer_result \<times> analyzer_result"

fun determine_risk_level :: "(string \<times> bounds) list \<Rightarrow> int \<Rightarrow> string" where
  "determine_risk_level [] s = ''UNKNOWN''"
| "determine_risk_level ((level, b) # rest) s =
     (if b_min b \<le> of_int s \<and> of_int s \<le> b_max b then upper level
      else determine_risk_level rest s)"

definition get_score :: "analyzer_result \<Rightarrow> rat" where
  "get_score r = (case risk_score r of None \<Rightarrow> 0 | Some s \<Rightarrow> s)"

definition get_flags :: "analyzer_result \<Rightarrow> string list" where
  "get_flags r = (case risk_flags r of None \<Rightarrow> [] | Some fs \<Rightarrow> fs)"

text \<open>
  \<open>score\<close>. The weighted sum is a chain of float operations, evaluated from left to
  right: each product and each partial sum is rounded to a double. The scores and the
  weights are doubles (an integer score is converted exactly).
\<close>

definition score ::
  "scoring_config \<Rightarrow> analyzer_result \<Rightarrow> analyzer_result \<Rightarrow> analyzer_result \<Rightarrow>
     analyzer_result \<Rightarrow> composite_result" where
  "score cfg concentration_result liquidity_result market_result behavioral_result =
     (let concentration_score = get_score concentration_result;
          liquidity_score = get_score liquidity_result;
          market_score = get_score market_result;
          behavioral_score = get_score behavioral_result;
          composite =
            fl (fl (fl (fl (concentration_score * w_concentration (weights cfg)) +
                        fl (liquidity_score * w_liquidity_depth (weights cfg))) +
                    fl (market_score * w_market_risk (weights cfg))) +
                fl (behavioral_score * w_behavioral (weights cfg)));
          composite_int = py_round composite;
          level = determine_risk_level (risk_levels cfg) composite_int;
          all_flags =
            get_flags concentration_result @ get_flags liquidity_result @
            get_flags market_result @ get_flags behavioral_result;
          critical_flags = filter (\<lambda>f. f \<noteq> ''LOW_RISK'') all_flags;
          final_flags = (if critical_flags \<noteq> [] then critical_flags else [''LOW_RISK''])
      in \<lparr> composite_score = composite_int,
           risk_level = level,
           composite_flags = final_flags,
           component_scores =
             (concentration_score, liquidity_score, market_score, behavioral_score),
           raw_metrics =
             (concentration_result, liquidity_result, market_result, behavioral_result) \<rparr>)"

text \<open>Concrete inputs used in the evaluations below.\<close>

definition flagged :: "rat \<Rightarrow> string list \<Rightarrow> analyzer_result" where
  "flagged s fs = \<lparr> error = None, risk_flags = Some fs, risk_score = Some s, metrics = [] \<rparr>"

definition no_data_result :: "string \<Rightarrow> analyzer_result" where
  "no_data_result msg =
     \<lparr> error = Some msg, risk_flags = Some [''NO_DATA''], risk_score = None, metrics = [] \<rparr>"

definition example_levels :: "(string \<times> bounds) list" where
  "example_levels =
     [(''low'', \<lparr> b_min = 0, b_max = 25 \<rparr>), (''medium'', \<lparr> b_min = 26, b_max = 50 \<rparr>),
      (''high'', \<lparr> b_min = 51, b_max = 75 \<rparr>), (''critical'', \<lparr> b_min = 76, b_max = 100 \<rparr>)]"

definition dyadic_config :: scoring_config where
  "dyadic_config =
     \<lparr> weights = \<lparr> w_concentration = 1 / 2, w_liquidity_depth = 1 / 4,
                   w_market_risk = 1 / 8, w_behavioral = 1 / 8 \<rparr>,
       risk_levels = example_levels \<rparr>"

text \<open>Four equal weights, each the double written \<open>0.3\<close>.\<close>

definition equal_config :: scoring_config where
  "equal_config =
     \<lparr> weights = \<lparr> w_concentration = fl (3 / 10), w_liquidity_depth = fl (3 / 10),
                   w_market_risk = fl (3 / 10), w_behavioral = fl (3 / 10) \<rparr>,
       risk_levels = example_levels \<rparr>"

section \<open>Plan-execute workflow (workflows/rag/plan_execute.py)\<close>

text \<open>A call that may raise: the oracle, a tool.\<close>

datatype 'a outcome = Raises string | Returns 'a

record analysis_plan =
  reasoning :: string
  plan_tools_to_call :: "string list"
  needs_comprehensive :: bool

record plan_update =
  plan :: string
  tools_to_call :: "string list"
  exit_flag :: bool

datatype tool_args =
    PoolArgs string
  | DepthArgs string rat
  | CompositeArgs jvalue jvalue jvalue jvalue

type_synonym tool = "tool_args \<Rightarrow> jvalue outcome"

text \<open>
  \<open>_plan_node\<close>. The planner's answer to the prompt is the argument \<open>oracle\<close>: the
  structured plan, or the exception \<open>planner_llm.invoke\<close> raised.
\<close>

definition plan_node :: "(string \<rightharpoonup> tool) \<Rightarrow> analysis_plan outcome \<Rightarrow> plan_update" where
  "plan_node tools_by_name oracle =
     (case oracle of
        Returns plan_result \<Rightarrow>
          (let selected =
                 (if needs_comprehensive plan_result
                  then [''analyze_concentration_risk'', ''analyze_liquidity_depth'',
                        ''analyze_market_risk'', ''analyze_behavioral_risk'']
                  else filter (\<lambda>t. tools_by_name t \<noteq> None) (plan_tools_to_call plan_result))
           in \<lparr> plan = reasoning plan_result, tools_to_call = selected, exit_flag = False \<rparr>)
      | Raises e \<Rightarrow>
          \<lparr> plan = ''Planning failed: '' @ e, tools_to_call = [], exit_flag = True \<rparr>)"

datatype route = ExecuteTools | NoTools | ErrorRoute

definition route_after_plan :: "plan_update \<Rightarrow> route" where
  "route_after_plan st =
     (if exit_flag st then ErrorRoute
      else if tools_to_call st = [] then NoTools
      else ExecuteTools)"

text \<open>
  One element of \<open>tool_results\<close>: a dict with some of the keys \<open>tool\<close>, \<open>result\<close>,
  \<open>error\<close> and \<open>skip\<close>.
\<close>

record tool_entry =
  entry_tool :: "string option"
  entry_result :: "jvalue option"
  entry_error :: "string option"
  entry_skip :: bool

text \<open>
  The update \<open>_execute_tools_node\<close> returns, together with the calls of \<open>ainvoke\<close>
  it made, in the order of \<open>tools_to_call\<close> (the order in which \<open>gather\<close> returns).
\<close>

record execute_update =
  tool_results :: "tool_entry list"
  execute_exit_flag :: bool
  invocations :: "(string \<times> tool_args) list"

definition composite_name :: string where
  "composite_name = ''calculate_composite_risk_score''"

definition result_entry :: "string \<Rightarrow> jvalue \<Rightarrow> tool_entry" where
  "result_entry name r =
     \<lparr> entry_tool = Some name, entry_result = Some r, entry_error = None, entry_skip = False \<rparr>"

definition error_entry :: "string \<Rightarrow> string \<Rightarrow> tool_entry" where
  "error_entry name e =
     \<lparr> entry_tool = Some name, entry_result = None, entry_error = Some e, entry_skip = False \<rparr>"

definition skip_entry :: "string \<Rightarrow> tool_entry" where
  "skip_entry name =
     \<lparr> entry_tool = Some name, entry_result = None, entry_error = None, entry_skip = True \<rparr>"

definition invoke_entry :: "tool \<Rightarrow> string \<Rightarrow> tool_args \<Rightarrow> tool_entry \<times> (string \<times> tool_args) list" where
  "invoke_entry t name args =
     (case t args of
        Returns r \<Rightarrow> (result_entry name r, [(name, args)])
      | Raises e \<Rightarrow> (error_entry name e, [(name, args)]))"

definition execute_single_tool ::
  "(string \<rightharpoonup> tool) \<Rightarrow> string \<Rightarrow> string \<Rightarrow> tool_entry \<times> (string \<times> tool_args) list" where
  "execute_single_tool tools_by_name pool_address tool_name =
     (case tools_by_name tool_name of
        None \<Rightarrow> (error_entry tool_name (''Tool '' @ tool_name @ '' not found''), [])
      | Some t \<Rightarrow>
          if tool_name = ''analyze_liquidity_depth''
          then invoke_entry t tool_name (DepthArgs pool_address 1)
          else if tool_name = ''calculate_composite_risk_score''
          then (skip_entry tool_name, [])
          else invoke_entry t tool_name (PoolArgs pool_address))"

text \<open>
  The dict comprehension \<open>{r["tool"]: r.get("result", {}) for r in results if "result" in r}\<close>:
  a later entry of the same tool replaces the value and keeps the key's place. Every entry
  that carries a result was built by \<open>execute_single_tool\<close> and has the key \<open>tool\<close>.
\<close>

fun risk_results_of :: "tool_entry list \<Rightarrow> (string \<times> jvalue) list \<Rightarrow> (string \<times> jvalue) list" where
  "risk_results_of [] acc = acc"
| "risk_results_of (r # rs) acc =
     (case (entry_result r, entry_tool r) of
        (Some v, Some name) \<Rightarrow> risk_results_of rs (AList.update name v acc)
      | _ \<Rightarrow> risk_results_of rs acc)"

definition get_or_empty :: "(string \<times> jvalue) list \<Rightarrow> string \<Rightarrow> jvalue" where
  "get_or_empty d k = (case map_of d k of None \<Rightarrow> JDict [] | Some v \<Rightarrow> v)"

definition composite_args :: "(string \<times> jvalue) list \<Rightarrow> tool_args" where
  "composite_args risk_results =
     CompositeArgs (get_or_empty risk_results ''analyze_concentration_risk'')
                   (get_or_empty risk_results ''analyze_liquidity_depth'')
                   (get_or_empty risk_results ''analyze_market_risk'')
                   (get_or_empty risk_results ''analyze_behavioral_risk'')"

text \<open>\<open>pool_address\<close> is \<open>None\<close> when the request carried none; \<open>not pool_address\<close> also
  holds for the empty string.\<close>

definition execute_tools_node ::
  "(string \<rightharpoonup> tool) \<Rightarrow> string list \<Rightarrow> string option \<Rightarrow> execute_update" where
  "execute_tools_node tools_by_name to_call pool_address =
     (case pool_address of
        None \<Rightarrow>
          \<lparr> tool_results =
               [\<lparr> entry_tool = None, entry_result = None,
                   entry_error = Some ''No pool address provided'', entry_skip = False \<rparr>],
             execute_exit_flag = True, invocations = [] \<rparr>
      | Some addr \<Rightarrow>
          if addr = [] then
            \<lparr> tool_results =
                 [\<lparr> entry_tool = None, entry_result = None,
                     entry_error = Some ''No pool address provided'', entry_skip = False \<rparr>],
               execute_exit_flag = True, invocations = [] \<rparr>
          else
            (let tasks = filter (\<lambda>name. name \<noteq> ''calculate_composite_risk_score'') to_call;
                 gathered = map (execute_single_tool tools_by_name addr) tasks;
                 wave_calls = concat (map snd gathered);
                 results = filter (\<lambda>r. \<not> entry_skip r) (map fst gathered)
             in if ''calculate_composite_risk_score'' \<in> set to_call then
                  (let risk_results = risk_results_of results []
                   in if 4 \<le> length risk_results then
                        (case tools_by_name ''calculate_composite_risk_score'' of
                           None \<Rightarrow>
                             \<lparr> tool_results = results, execute_exit_flag = False,
                               invocations = wave_calls \<rparr>
                         | Some composite_tool \<Rightarrow>
                             (case composite_tool (composite_args risk_results) of
                                Returns composite_result \<Rightarrow>
                                  \<lparr> tool_results =
                                       results @
                                       [result_entry ''calculate_composite_risk_score'' composite_result],
                                     execute_exit_flag = False,
                                     invocations =
                                       wave_calls @
                                       [(''calculate_composite_risk_score'', composite_args risk_results)] \<rparr>
                              | Raises e \<Rightarrow>
                                  \<lparr> tool_results = results, execute_exit_flag = False,
                                    invocations =
                                      wave_calls @
                                      [(''calculate_composite_risk_score'', composite_args risk_results)] \<rparr>))
                      else \<lparr> tool_results = results, execute_exit_flag = False,
                             invocations = wave_calls \<rparr>)
                else \<lparr> tool_results = results, execute_exit_flag = False,
                       invocations = wave_calls \<rparr>))"

text \<open>
  \<open>_finalize_node\<close>. The keys \<open>risk_score\<close> and \<open>risk_level\<close> of the metadata are
  optional: \<open>None\<close> is the absent key. \<open>tr["result"].get\<close> raises AttributeError when the
  result is not a dict.
\<close>

record finalize_state =
  st_tool_results :: "tool_entry list option"
  st_plan :: "string option"
  st_tools_to_call :: "string list option"
  st_synthesized_answer :: "string option"

record metadata =
  md_plan :: string
  md_tools_called :: "string list"
  md_tool_count :: nat
  md_mcp_protocol :: bool
  md_risk_score :: "jvalue option"
  md_risk_level :: "jvalue option"

record final_output =
  answer :: string
  output_metadata :: metadata

datatype py_exception = AttributeError | ValueError | OverflowError

definition dict_get :: "(string \<times> jvalue) list \<Rightarrow> string \<Rightarrow> jvalue" where
  "dict_get d k = (case map_of d k of None \<Rightarrow> JNone | Some v \<Rightarrow> v)"

text \<open>The loop with its \<open>break\<close>: the first composite entry that has a result decides.\<close>

fun extract_composite :: "tool_entry list \<Rightarrow> py_exception + (jvalue \<times> jvalue)" where
  "extract_composite [] = Inr (JNone, JNone)"
| "extract_composite (tr # rest) =
     (if entry_tool tr = Some ''calculate_composite_risk_score'' \<and> entry_result tr \<noteq> None
      then (case entry_result tr of
              Some (JDict d) \<Rightarrow> Inr (dict_get d ''composite_score'', dict_get d ''risk_level'')
            | _ \<Rightarrow> Inl AttributeError)
      else extract_composite rest)"

definition finalize_node :: "finalize_state \<Rightarrow> py_exception + final_output" where
  "finalize_node state =
     (let results = (case st_tool_results state of None \<Rightarrow> [] | Some rs \<Rightarrow> rs);
          the_plan = (case st_plan state of None \<Rightarrow> [] | Some p \<Rightarrow> p);
          tools_called = (case st_tools_to_call state of None \<Rightarrow> [] | Some ts \<Rightarrow> ts)
      in case extract_composite results of
           Inl e \<Rightarrow> Inl e
         | Inr (score_value, level_value) \<Rightarrow>
             Inr \<lparr> answer =
                     (case st_synthesized_answer state of
                        None \<Rightarrow> ''No answer generated'' | Some a \<Rightarrow> a),
                   output_metadata =
                     \<lparr> md_plan = the_plan, md_tools_called = tools_called,
                       md_tool_count = length tools_called, md_mcp_protocol = True,
                       md_risk_score = (if score_value \<noteq> JNone then Some score_value else None),
                       md_risk_level = (if score_value \<noteq> JNone then Some level_value else None) \<rparr> \<rparr>)"

subsection \<open>Reading the update of the execute node\<close>

text \<open>
  Whether the composite tool was called, whether that call raised, the entries of the other
  tools that carry a result, the entries of the composite tool, and what the finalize node
  returns in a state that holds the update's \<open>tool_results\<close>.
\<close>

definition composite_invoked :: "execute_update \<Rightarrow> bool" where
  "composite_invoked upd = (composite_name \<in> fst ` set (invocations upd))"

definition composite_raised :: "(string \<rightharpoonup> tool) \<Rightarrow> execute_update \<Rightarrow> bool" where
  "composite_raised tools_by_name upd =
     (case tools_by_name composite_name of
        None \<Rightarrow> False
      | Some t \<Rightarrow>
          list_ex (\<lambda>c. fst c = composite_name \<and> (case t (snd c) of Raises e \<Rightarrow> True | Returns r \<Rightarrow> False))
            (invocations upd))"

definition successes :: "execute_update \<Rightarrow> tool_entry list" where
  "successes upd =
     filter (\<lambda>r. entry_tool r \<noteq> Some composite_name \<and> entry_result r \<noteq> None) (tool_results upd)"

definition composite_entries :: "execute_update \<Rightarrow> tool_entry list" where
  "composite_entries upd = filter (\<lambda>r. entry_tool r = Some composite_name) (tool_results upd)"

definition no_risk_fields :: "py_exception + final_output \<Rightarrow> bool" where
  "no_risk_fields out =
     (case out of
        Inl e \<Rightarrow> False
      | Inr fo \<Rightarrow> md_risk_score (output_metadata fo) = None \<and> md_risk_level (output_metadata fo) = None)"

definition finalize_after :: "execute_update \<Rightarrow> finalize_state \<Rightarrow> py_exception + final_output" where
  "finalize_after upd state = finalize_node (state\<lparr> st_tool_results := Some (tool_results upd) \<rparr>)"

text \<open>The first wave and what it returns.\<close>

definition wave :: "(string \<rightharpoonup> tool) \<Rightarrow> string list \<Rightarrow> string \<Rightarrow> (tool_entry \<times> (string \<times> tool_args) list) list" where
  "wave tbn to_call addr =
     map (execute_single_tool tbn addr) (filter (\<lambda>name. name \<noteq> ''calculate_composite_risk_score'') to_call)"

definition wave_results :: "(string \<rightharpoonup> tool) \<Rightarrow> string list \<Rightarrow> string \<Rightarrow> tool_entry list" where
  "wave_results tbn to_call addr = filter (\<lambda>r. \<not> entry_skip r) (map fst (wave tbn to_call addr))"

definition wave_invocations :: "(string \<rightharpoonup> tool) \<Rightarrow> string list \<Rightarrow> string \<Rightarrow> (string \<times> tool_args) list" where
  "wave_invocations tbn to_call addr = concat (map snd (wave tbn to_call addr))"

definition analyzer_tool :: tool where
  "analyzer_tool args = Returns (JDict [(''risk_score'', JInt 10), (''risk_flags'', JList [JStr ''LOW_RISK''])])"

definition failing_composite_tool :: tool where
  "failing_composite_tool args = Raises ''scoring failed''"

definition example_tools :: "string \<rightharpoonup> tool" where
  "example_tools =
     map_of [(''analyze_concentration_risk'', analyzer_tool),
             (''analyze_liquidity_depth'', analyzer_tool),
             (''analyze_market_risk'', analyzer_tool),
             (''analyze_behavioral_risk'', analyzer_tool),
             (''calculate_composite_risk_score'', failing_composite_tool)]"

definition example_to_call :: "string list" where
  "example_to_call =
     [''analyze_concentration_risk'', ''analyze_liquidity_depth'', ''analyze_market_risk'',
      ''analyze_behavioral_risk'', ''calculate_composite_risk_score'']"

definition example_state :: finalize_state where
  "example_state =
     \<lparr> st_tool_results = None, st_plan = Some ''plan'', st_tools_to_call = Some example_to_call,
       st_synthesized_answer = Some ''answer'' \<rparr>"

section \<open>GraphPaginator (utils.py)\<close>

text \<open>
  What one \<open>requests.post\<close> of \<open>_execute_with_retry\<close> comes to:
  a \<open>RequestException\<close> (raised by the call, or by \<open>raise_for_status\<close>, which raises
  for a 4xx or 5xx status), or a response that passes \<open>raise_for_status\<close> (any other
  status) and whose JSON body either has the key \<open>errors\<close> or does not; of the latter
  the content of \<open>data\<close> is kept (entity name to records; no \<open>data\<close> is the empty
  dict).
\<close>

datatype 'e response =
    RequestFailed string
  | GraphQLErrors string
  | Body "(string \<times> 'e list) list"

text \<open>
  The three exceptions \<open>_execute_with_retry\<close> can end with:
  \<open>Exception("Query failed after N retries: ...")\<close>, \<open>Exception("GraphQL errors: ...")\<close> and
  \<open>Exception("Unexpected error in retry logic")\<close>.
\<close>

datatype fetch_error =
    QueryFailed nat string
  | GraphQLException string
  | UnexpectedRetryError

record pagination =
  batch_size :: nat
  rate_limit_delay :: rat
  max_retries :: nat
  retry_delay :: rat

text \<open>
  The value returned or the exception raised, with the number of requests posted and the
  arguments of \<open>time.sleep\<close> in order.
\<close>

record 'e retry_result =
  returned :: "fetch_error + (string \<times> 'e list) list"
  posts :: nat
  sleeps :: "rat list"

text \<open>
  \<open>for attempt in range(max_retries)\<close>; \<open>net attempt\<close> is the network's answer to that
  attempt. The \<open>except\<close> clause catches \<open>RequestException\<close> only, so the plain
  \<open>Exception\<close> raised for GraphQL errors leaves the loop.
\<close>

fun retry_loop ::
  "pagination \<Rightarrow> (nat \<Rightarrow> 'e response) \<Rightarrow> nat list \<Rightarrow> nat \<Rightarrow> rat list \<Rightarrow> 'e retry_result" where
  "retry_loop cfg net [] n slept =
     \<lparr> returned = Inl UnexpectedRetryError, posts = n, sleeps = slept \<rparr>"
| "retry_loop cfg net (attempt # rest) n slept =
     (case net attempt of
        Body d \<Rightarrow> \<lparr> returned = Inr d, posts = n + 1, sleeps = slept \<rparr>
      | GraphQLErrors e \<Rightarrow>
          \<lparr> returned = Inl (GraphQLException e), posts = n + 1, sleeps = slept \<rparr>
      | RequestFailed e \<Rightarrow>
          if int attempt = int (max_retries cfg) - 1
          then \<lparr> returned = Inl (QueryFailed (max_retries cfg) e), posts = n + 1, sleeps = slept \<rparr>
          else retry_loop cfg net rest (n + 1)
                 (slept @ [retry_delay cfg * (of_nat attempt + 1)]))"

definition execute_with_retry :: "pagination \<Rightarrow> (nat \<Rightarrow> 'e response) \<Rightarrow> 'e retry_result" where
  "execute_with_retry cfg net = retry_loop cfg net [0..<max_retries cfg] 0 []"






definition example_pagination :: pagination where
  "example_pagination =
     \<lparr> batch_size = 2, rate_limit_delay = 1 / 2, max_retries = 3, retry_delay = 2 \<rparr>"

definition graphql_error_net :: "nat \<Rightarrow> unit response" where
  "graphql_error_net attempt = GraphQLErrors ''bad query''"

definition http_error_net :: "nat \<Rightarrow> unit response" where
  "http_error_net attempt = RequestFailed ''503''"

section \<open>Analyzers (tools/*.py)\<close>

text \<open>
  An analyzer raises what its fetch raises, or a Python exception of its own arithmetic.
\<close>

datatype analysis_error = FetchFailed fetch_error | PyRaised py_exception

text \<open>\<open>defaultdict(list)\<close> filled by \<open>d[k].append(v)\<close>: keys in order of first use.\<close>

fun append_to :: "'k \<Rightarrow> 'v \<Rightarrow> ('k \<times> 'v list) list \<Rightarrow> ('k \<times> 'v list) list" where
  "append_to k v [] = [(k, [v])]"
| "append_to k v ((k', vs) # rest) =
     (if k = k' then (k', vs @ [v]) # rest else (k', vs) # append_to k v rest)"

definition get_list :: "('k \<times> 'v list) list \<Rightarrow> 'k \<Rightarrow> 'v list" where
  "get_list d k = (case map_of d k of None \<Rightarrow> [] | Some vs \<Rightarrow> vs)"

subsection \<open>BehavioralRiskAnalyzer\<close>

record swap =
  swap_id :: string
  sender :: string
  recipient :: string
  origin :: string
  tx_id :: string
  block_number :: string

record behavioral_thresholds =
  wash_trading_critical_pct :: rat
  wash_trading_high_pct :: rat
  mev_exposure_critical_pct :: rat
  mev_exposure_high_pct :: rat

record wash_pattern =
  pattern_block :: string
  pattern_addresses :: "string list"
  pattern_kind :: string

definition swaps_by_block :: "swap list \<Rightarrow> (string \<times> swap list) list" where
  "swaps_by_block swaps = foldl (\<lambda>d s. append_to (block_number s) s d) [] swaps"

definition flows_of :: "swap list \<Rightarrow> (string \<times> string list) list" where
  "flows_of block_swaps = foldl (\<lambda>d s. append_to (sender s) (recipient s) d) [] block_swaps"

text \<open>The three nested loops; the state is \<open>(suspicious_patterns, suspicious_swap_count)\<close>.\<close>

fun scan_recipients ::
  "(string \<times> string list) list \<Rightarrow> string \<Rightarrow> string \<Rightarrow> string list \<Rightarrow>
     wash_pattern list \<times> nat \<Rightarrow> wash_pattern list \<times> nat" where
  "scan_recipients flows block sndr [] st = st"
| "scan_recipients flows block sndr (rcpt # rest) st =
     scan_recipients flows block sndr rest
       (if sndr \<in> set (get_list flows rcpt)
        then (fst st @ [\<lparr> pattern_block = block, pattern_addresses = [sndr, rcpt],
                           pattern_kind = ''circular'' \<rparr>],
              snd st + 2)
        else st)"

fun scan_flows ::
  "(string \<times> string list) list \<Rightarrow> string \<Rightarrow> (string \<times> string list) list \<Rightarrow>
     wash_pattern list \<times> nat \<Rightarrow> wash_pattern list \<times> nat" where
  "scan_flows flows block [] st = st"
| "scan_flows flows block ((sndr, recipients) # rest) st =
     scan_flows flows block rest (scan_recipients flows block sndr recipients st)"

fun scan_blocks ::
  "(string \<times> swap list) list \<Rightarrow> wash_pattern list \<times> nat \<Rightarrow> wash_pattern list \<times> nat" where
  "scan_blocks [] st = st"
| "scan_blocks ((block, block_swaps) # rest) st =
     scan_blocks rest
       (if length block_swaps < 2 then st
        else (let flows = flows_of block_swaps in scan_flows flows block flows st))"

definition suspicious_swap_count :: "swap list \<Rightarrow> nat" where
  "suspicious_swap_count swaps = snd (scan_blocks (swaps_by_block swaps) ([], 0))"

definition detect_wash_trading :: "swap list \<Rightarrow> rat \<times> wash_pattern list" where
  "detect_wash_trading swaps =
     (let st = scan_blocks (swaps_by_block swaps) ([], 0)
      in if swaps = [] then (0, [])
         else (of_nat (snd st) / of_nat (length swaps) * 100, fst st))"

text \<open>The scan of consecutive triples; \<open>sandwich_victims\<close> is a set of transaction ids.\<close>

fun scan_triples :: "swap list \<Rightarrow> string list \<Rightarrow> string list" where
  "scan_triples (a # b # c # rest) victims =
     scan_triples (b # c # rest)
       (if origin a = origin c \<and> origin b \<noteq> origin a
        then List.insert (tx_id b) victims else victims)"
| "scan_triples swaps victims = victims"

fun scan_blocks_mev :: "(string \<times> swap list) list \<Rightarrow> string list \<Rightarrow> string list" where
  "scan_blocks_mev [] victims = victims"
| "scan_blocks_mev ((block, block_swaps) # rest) victims =
     scan_blocks_mev rest
       (if length block_swaps < 3 then victims
        else scan_triples (sort_key swap_id block_swaps) victims)"

definition detect_sandwich_attacks :: "swap list \<Rightarrow> rat \<times> string list" where
  "detect_sandwich_attacks swaps =
     (let victims = scan_blocks_mev (swaps_by_block swaps) []
      in if swaps = [] then (0, [])
         else (of_nat (length victims) / of_nat (length swaps) * 100, victims))"

definition behavioral_generate_risk_flags :: "behavioral_thresholds \<Rightarrow> rat \<Rightarrow> rat \<Rightarrow> string list" where
  "behavioral_generate_risk_flags thresholds wash_pct mev_pct =
     (let flags =
            (if wash_pct > wash_trading_critical_pct thresholds then [''CRITICAL_WASH_TRADING'']
             else if wash_pct > wash_trading_high_pct thresholds then [''HIGH_WASH_TRADING'']
             else []) @
            (if mev_pct > mev_exposure_critical_pct thresholds then [''CRITICAL_MEV_EXPOSURE'']
             else if mev_pct > mev_exposure_high_pct thresholds then [''HIGH_MEV_EXPOSURE'']
             else [])
      in if flags \<noteq> [] then flags else [''LOW_RISK''])"

definition behavioral_calculate_risk_score :: "rat \<Rightarrow> rat \<Rightarrow> int" where
  "behavioral_calculate_risk_score wash_pct mev_pct =
     py_round (min ((wash_pct + mev_pct) / 2) 100)"

definition pattern_json :: "wash_pattern \<Rightarrow> jvalue" where
  "pattern_json p =
     JDict [(''block'', JStr (pattern_block p)),
            (''addresses'', JList (map JStr (pattern_addresses p))),
            (''pattern'', JStr (pattern_kind p))]"

text \<open>\<open>analyze\<close> after the fetch; \<open>swaps\<close> is what \<open>_fetch_recent_swaps\<close> returned.\<close>

definition behavioral_analyze_swaps :: "behavioral_thresholds \<Rightarrow> swap list \<Rightarrow> analyzer_result" where
  "behavioral_analyze_swaps thresholds swaps =
     (if swaps = [] then
        \<lparr> error = Some ''No swap data found for this pool'',
          risk_flags = Some [''NO_DATA''],
          risk_score = None,
          metrics = [(''wash_trading_pct'', JNone), (''mev_exposure_pct'', JNone),
                     (''suspicious_patterns'', JList [])] \<rparr>
      else
        (let wash = detect_wash_trading swaps;
             mev = detect_sandwich_attacks swaps;
             flags = behavioral_generate_risk_flags thresholds (fst wash) (fst mev)
         in \<lparr> error = None,
              risk_flags = Some flags,
              risk_score = Some (of_int (behavioral_calculate_risk_score (fst wash) (fst mev))),
              metrics =
                [(''wash_trading_pct'', JNum (py_round_ndigits (fst wash) 2)),
                 (''mev_exposure_pct'', JNum (py_round_ndigits (fst mev) 2)),
                 (''total_swaps_analyzed'', JInt (int (length swaps))),
                 (''wash_trading_patterns'', JInt (int (length (snd wash)))),
                 (''sandwich_victims'', JInt (int (length (snd mev)))),
                 (''suspicious_patterns'', JList (map pattern_json (take 10 (snd wash))))] \<rparr>))"

text \<open>
  \<open>analyze\<close>: \<open>fetched\<close> is what \<open>paginator.fetch_all\<close> came to, cut to
  \<open>swap_limit\<close> records.
\<close>

definition behavioral_analyze ::
  "behavioral_thresholds \<Rightarrow> nat \<Rightarrow> fetch_error + swap list \<Rightarrow> analysis_error + analyzer_result" where
  "behavioral_analyze thresholds swap_limit fetched =
     (case fetched of
        Inl e \<Rightarrow> Inl (FetchFailed e)
      | Inr all_swaps \<Rightarrow> Inr (behavioral_analyze_swaps thresholds (take swap_limit all_swaps)))"

definition mk_swap :: "string \<Rightarrow> string \<Rightarrow> string \<Rightarrow> string \<Rightarrow> string \<Rightarrow> swap" where
  "mk_swap i blk s r og =
     \<lparr> swap_id = i, sender = s, recipient = r, origin = og, tx_id = ''tx'' @ i,
       block_number = blk \<rparr>"

subsection \<open>ConcentrationRiskAnalyzer\<close>

record position =
  position_id :: string
  owner :: string
  liquidity :: rat
  timestamp :: int

record concentration_thresholds =
  top10_dominance_critical_pct :: rat
  top10_dominance_high_risk_pct :: rat
  gini_critical :: rat
  gini_high_risk :: rat
  hhi_critical :: rat
  hhi_high_risk :: rat

record lp_age_thresholds_days =
  mercenary :: int
  long_term :: int

text \<open>
  A numpy float: a number, or the \<open>nan\<close> or \<open>inf\<close> that numpy's division returns
  when the divisor is zero.
\<close>

datatype np_float = Finite rat | NaN | Inf

text \<open>
  \<open>_calculate_gini\<close>: \<open>np.sort\<close>, the last element of \<open>np.cumsum\<close> (the total), and
  the weights \<open>np.arange(1, n + 1)\<close>.
\<close>

definition weighted_sum :: "rat list \<Rightarrow> rat" where
  "weighted_sum xs = sum_list (map2 (\<lambda>i x. of_nat i * x) [1..<length xs + 1] xs)"

definition calculate_gini :: "rat list \<Rightarrow> np_float" where
  "calculate_gini vals =
     (if vals = [] then Finite 0
      else
        (let sorted_values = sort vals;
             n = length sorted_values;
             total_liq = sum_list sorted_values
         in if of_nat n * total_liq = 0
            then (if 2 * weighted_sum sorted_values = 0 then NaN else Inf)
            else Finite ((2 * weighted_sum sorted_values) / (of_nat n * total_liq)
                          - (of_nat n + 1) / of_nat n)))"

definition calculate_hhi :: "rat list \<Rightarrow> rat \<Rightarrow> rat" where
  "calculate_hhi vals total_liq =
     (if total_liq = 0 then 0
      else sum_list (map (\<lambda>share. share ^ 2) (map (\<lambda>v. (v / total_liq) * 100) vals)))"

definition calculate_top_n_dominance :: "rat list \<Rightarrow> rat \<Rightarrow> nat \<Rightarrow> rat" where
  "calculate_top_n_dominance vals total_liq n =
     (if total_liq = 0 then 0
      else (sum_list (take n (rev (sort vals))) / total_liq) * 100)"

record age_bucket =
  bucket_count :: nat
  bucket_liquidity :: rat

record lp_age_distribution =
  mercenary_bucket :: age_bucket
  medium_bucket :: age_bucket
  long_term_bucket :: age_bucket

definition add_to_bucket :: "rat \<Rightarrow> age_bucket \<Rightarrow> age_bucket" where
  "add_to_bucket l b = \<lparr> bucket_count = bucket_count b + 1, bucket_liquidity = bucket_liquidity b + l \<rparr>"

fun age_loop :: "int \<Rightarrow> int \<Rightarrow> int \<Rightarrow> position list \<Rightarrow> lp_age_distribution \<Rightarrow> lp_age_distribution" where
  "age_loop now mercenary_threshold long_term_threshold [] d = d"
| "age_loop now mercenary_threshold long_term_threshold (pos # rest) d =
     age_loop now mercenary_threshold long_term_threshold rest
       (let age_seconds = now - timestamp pos
        in if age_seconds < mercenary_threshold
           then d\<lparr> mercenary_bucket := add_to_bucket (liquidity pos) (mercenary_bucket d) \<rparr>
           else if age_seconds < long_term_threshold
           then d\<lparr> medium_bucket := add_to_bucket (liquidity pos) (medium_bucket d) \<rparr>
           else d\<lparr> long_term_bucket := add_to_bucket (liquidity pos) (long_term_bucket d) \<rparr>)"

definition empty_bucket :: age_bucket where
  "empty_bucket = \<lparr> bucket_count = 0, bucket_liquidity = 0 \<rparr>"

text \<open>
  \<open>_calculate_lp_age_distribution\<close> at the clock reading \<open>now\<close>; each bucket of the
  result carries its count and its \<open>liquidity_pct\<close>.
\<close>

definition bucket_pct :: "rat \<Rightarrow> age_bucket \<Rightarrow> rat" where
  "bucket_pct total_liq b =
     py_round_ndigits (if total_liq > 0 then bucket_liquidity b / total_liq * 100 else 0) 2"

definition calculate_lp_age_distribution ::
  "lp_age_thresholds_days \<Rightarrow> int \<Rightarrow> position list \<Rightarrow> lp_age_distribution" where
  "calculate_lp_age_distribution days now positions =
     (let d = age_loop now (mercenary days * 86400) (long_term days * 86400) positions
                \<lparr> mercenary_bucket = empty_bucket, medium_bucket = empty_bucket,
                  long_term_bucket = empty_bucket \<rparr>;
          total_liq = bucket_liquidity (mercenary_bucket d) + bucket_liquidity (medium_bucket d)
                  + bucket_liquidity (long_term_bucket d)
      in \<lparr> mercenary_bucket = (mercenary_bucket d)\<lparr> bucket_liquidity := bucket_pct total_liq (mercenary_bucket d) \<rparr>,
           medium_bucket = (medium_bucket d)\<lparr> bucket_liquidity := bucket_pct total_liq (medium_bucket d) \<rparr>,
           long_term_bucket = (long_term_bucket d)\<lparr> bucket_liquidity := bucket_pct total_liq (long_term_bucket d) \<rparr> \<rparr>)"

definition concentration_generate_risk_flags ::
  "concentration_thresholds \<Rightarrow> rat \<Rightarrow> rat \<Rightarrow> rat \<Rightarrow> lp_age_distribution \<Rightarrow> string list" where
  "concentration_generate_risk_flags thresholds gini hhi top10_dominance lp_age_dist =
     (let flags =
            (if top10_dominance > top10_dominance_critical_pct thresholds
             then [''CRITICAL_TOP10_DOMINANCE'']
             else if top10_dominance > top10_dominance_high_risk_pct thresholds
             then [''HIGH_TOP10_DOMINANCE''] else []) @
            (if gini > gini_critical thresholds then [''CRITICAL_GINI'']
             else if gini > gini_high_risk thresholds then [''HIGH_GINI''] else []) @
            (if hhi > hhi_critical thresholds then [''CRITICAL_HHI'']
             else if hhi > hhi_high_risk thresholds then [''HIGH_HHI''] else []) @
            (if bucket_liquidity (mercenary_bucket lp_age_dist) > 50
             then [''HIGH_MERCENARY_LIQUIDITY''] else [])
      in if flags \<noteq> [] then flags else [''LOW_RISK''])"

definition concentration_calculate_risk_score :: "rat \<Rightarrow> rat \<Rightarrow> rat \<Rightarrow> int" where
  "concentration_calculate_risk_score gini hhi top10_dominance =
     (let gini_score = gini * 100;
          hhi_score = min ((hhi / 10000) * 100) 100;
          dominance_score = top10_dominance
      in py_round ((gini_score + hhi_score + dominance_score) / 3))"

definition bucket_json :: "age_bucket \<Rightarrow> jvalue" where
  "bucket_json b = JDict [(''count'', JInt (int (bucket_count b))), (''liquidity_pct'', JNum (bucket_liquidity b))]"

definition lp_age_json :: "lp_age_distribution \<Rightarrow> jvalue" where
  "lp_age_json d =
     JDict [(''mercenary'', bucket_json (mercenary_bucket d)),
            (''medium_term'', bucket_json (medium_bucket d)),
            (''long_term'', bucket_json (long_term_bucket d))]"

text \<open>
  \<open>analyze\<close>. With a total liquidity of zero the Gini coefficient is \<open>nan\<close> or
  \<open>inf\<close>, and \<open>int(round(...))\<close> in \<open>_calculate_risk_score\<close> raises ValueError or
  OverflowError while the result dict is built.
\<close>

definition concentration_analyze ::
  "concentration_thresholds \<Rightarrow> lp_age_thresholds_days \<Rightarrow> int \<Rightarrow> fetch_error + position list \<Rightarrow>
     analysis_error + analyzer_result" where
  "concentration_analyze thresholds days now fetched =
     (case fetched of
        Inl e \<Rightarrow> Inl (FetchFailed e)
      | Inr positions \<Rightarrow>
          if positions = [] then
            Inr \<lparr> error = Some ''No positions found for this pool'',
                  risk_flags = Some [''NO_DATA''],
                  risk_score = None,
                  metrics = [(''gini'', JNone), (''hhi'', JNone), (''top10_dominance_pct'', JNone),
                             (''lp_age_distribution'', JNone)] \<rparr>
          else
            (let liquidity_values = map liquidity positions;
                 total_liquidity = sum_list liquidity_values;
                 hhi = calculate_hhi liquidity_values total_liquidity;
                 top10_dominance = calculate_top_n_dominance liquidity_values total_liquidity 10;
                 lp_age_dist = calculate_lp_age_distribution days now positions
             in case calculate_gini liquidity_values of
                  NaN \<Rightarrow> Inl (PyRaised ValueError)
                | Inf \<Rightarrow> Inl (PyRaised OverflowError)
                | Finite gini \<Rightarrow>
                    Inr \<lparr> error = None,
                          risk_flags =
                            Some (concentration_generate_risk_flags thresholds gini hhi
                                    top10_dominance lp_age_dist),
                          risk_score =
                            Some (of_int (concentration_calculate_risk_score gini hhi top10_dominance)),
                          metrics =
                            [(''gini_coefficient'', JNum (py_round_ndigits gini 4)),
                             (''herfindahl_hirschman_index'', JNum (py_round_ndigits hhi 2)),
                             (''top10_dominance_pct'', JNum (py_round_ndigits top10_dominance 2)),
                             (''lp_age_distribution'', lp_age_json lp_age_dist),
                             (''total_positions'', JInt (int (length positions)))] \<rparr>))"

text \<open>
  The same function in binary64 arithmetic, to see what rounding does to it: every
  operation of the source is followed by \<open>fl\<close>. \<open>np.cumsum\<close> adds from left to right. The order in which \<open>np.sum\<close> adds is numpy's
  own and enters as the parameter \<open>np_sum\<close>; \<open>sequential_sum\<close> adds from left to
  right, and for two summands every order gives the same double. The values are doubles
  already, as \<open>float(p["liquidity"])\<close> makes them.
\<close>

definition sequential_sum :: "rat list \<Rightarrow> rat" where
  "sequential_sum xs = (case xs of [] \<Rightarrow> 0 | x # rest \<Rightarrow> foldl (\<lambda>s v. fl (s + v)) x rest)"

definition calculate_gini_binary64 :: "(rat list \<Rightarrow> rat) \<Rightarrow> rat list \<Rightarrow> np_float" where
  "calculate_gini_binary64 np_sum vals =
     (if vals = [] then Finite 0
      else
        (let sorted_values = sort vals;
             n = length sorted_values;
             total_liq = sequential_sum sorted_values;
             numerator =
               fl (2 * np_sum (map2 (\<lambda>i x. fl (of_nat i * x)) [1..<n + 1] sorted_values));
             denominator = fl (of_nat n * total_liq)
         in if denominator = 0
            then (if numerator = 0 then NaN else Inf)
            else Finite (fl (fl (numerator / denominator) - fl ((of_nat n + 1) / of_nat n)))))"

text \<open>The weighted sum with the weights counted from \<open>k\<close>, for the proofs.\<close>

fun wsum_from :: "nat \<Rightarrow> rat list \<Rightarrow> rat" where
  "wsum_from k [] = 0"
| "wsum_from k (x # xs) = of_nat k * x + wsum_from (Suc k) xs"

definition mk_position :: "string \<Rightarrow> rat \<Rightarrow> position" where
  "mk_position i l = \<lparr> position_id = i, owner = ''0xowner'', liquidity = l, timestamp = 0 \<rparr>"

definition example_concentration_thresholds :: concentration_thresholds where
  "example_concentration_thresholds =
     \<lparr> top10_dominance_critical_pct = 80, top10_dominance_high_risk_pct = 60,
       gini_critical = 9 / 10, gini_high_risk = 8 / 10,
       hhi_critical = 2500, hhi_high_risk = 1500 \<rparr>"

subsection \<open>LiquidityDepthAnalyzer\<close>

record tick =
  tick_idx :: int
  liquidity_gross :: rat

record liquidity_thresholds =
  price_impact_100k_critical_pct :: rat
  price_impact_100k_high_pct :: rat
  price_impact_1m_critical_pct :: rat
  price_impact_1m_high_pct :: rat
  active_liquidity_low_pct :: rat
  tvl_volatility_high_pct :: rat

text \<open>
  \<open>_simulate_sell_order\<close>. The square root is numpy's and enters as the parameter
  \<open>np_sqrt\<close>; dividing by a root of zero gives \<open>inf\<close>, which the cap turns into 100.
\<close>

definition simulate_sell_order :: "(rat \<Rightarrow> rat) \<Rightarrow> tick list \<Rightarrow> rat \<Rightarrow> rat" where
  "simulate_sell_order np_sqrt ticks sell_amount_usd =
     (let sorted_ticks = sort_key tick_idx ticks;
          total_liquidity = sum_list (map (\<lambda>t. \<bar>liquidity_gross t\<bar>) sorted_ticks)
      in if total_liquidity = 0 then 100
         else if np_sqrt total_liquidity = 0 then 100
         else min ((sell_amount_usd / np_sqrt total_liquidity) * 100) 100)"

text \<open>
  \<open>_calculate_active_liquidity\<close>. \<open>current_tick\<close> and \<open>tick_spacing\<close> are the two
  integers the source gets from \<open>np.log\<close>; they enter as parameters.
\<close>

fun active_loop :: "int \<Rightarrow> int \<Rightarrow> tick list \<Rightarrow> rat \<times> rat \<Rightarrow> rat \<times> rat" where
  "active_loop lower_bound upper_bound [] st = st"
| "active_loop lower_bound upper_bound (t # rest) st =
     active_loop lower_bound upper_bound rest
       (let l = \<bar>liquidity_gross t\<bar>
        in (if lower_bound \<le> tick_idx t \<and> tick_idx t \<le> upper_bound then fst st + l else fst st,
            snd st + l))"

definition calculate_active_liquidity :: "int \<Rightarrow> int \<Rightarrow> tick list \<Rightarrow> rat" where
  "calculate_active_liquidity current_tick tick_spacing ticks =
     (if ticks = [] then 0
      else
        (let st = active_loop (current_tick - tick_spacing) (current_tick + tick_spacing) ticks (0, 0)
         in if snd st = 0 then 0 else (fst st / snd st) * 100))"

definition liquidity_generate_risk_flags ::
  "liquidity_thresholds \<Rightarrow> rat option \<Rightarrow> rat option \<Rightarrow> rat option \<Rightarrow> rat option \<Rightarrow> string list" where
  "liquidity_generate_risk_flags thresholds impact_100k impact_1m active_liquidity_pct tvl_volatility =
     (case (impact_100k, impact_1m) of
        (Some i100k, Some i1m) \<Rightarrow>
          (let flags =
                 (if i100k > price_impact_100k_critical_pct thresholds then [''CRITICAL_SLIPPAGE_100K'']
                  else if i100k > price_impact_100k_high_pct thresholds then [''HIGH_SLIPPAGE_100K'']
                  else []) @
                 (if i1m > price_impact_1m_critical_pct thresholds then [''CRITICAL_SLIPPAGE_1M'']
                  else if i1m > price_impact_1m_high_pct thresholds then [''HIGH_SLIPPAGE_1M'']
                  else []) @
                 (case active_liquidity_pct of
                    Some a \<Rightarrow> if a < active_liquidity_low_pct thresholds
                              then [''LOW_ACTIVE_LIQUIDITY''] else []
                  | None \<Rightarrow> []) @
                 (case tvl_volatility of
                    Some v \<Rightarrow> if v > tvl_volatility_high_pct thresholds
                              then [''HIGH_TVL_VOLATILITY''] else []
                  | None \<Rightarrow> [])
           in if flags \<noteq> [] then flags else [''LOW_RISK''])
      | _ \<Rightarrow> [''NO_DATA''])"

definition or_zero :: "rat option \<Rightarrow> rat" where
  "or_zero x = (case x of None \<Rightarrow> 0 | Some v \<Rightarrow> v)"

definition liquidity_calculate_risk_score ::
  "rat option \<Rightarrow> rat option \<Rightarrow> rat option \<Rightarrow> rat option \<Rightarrow> int" where
  "liquidity_calculate_risk_score impact_100k impact_1m active_liquidity_pct tvl_volatility =
     (case (impact_100k, impact_1m) of
        (Some i100k, Some i1m) \<Rightarrow>
          (let impact_score = min ((i100k + i1m) / 2 * 10) 100;
               inactive_liquidity_score = 100 - or_zero active_liquidity_pct;
               volatility_score = min (or_zero tvl_volatility * 2) 100
           in py_round (impact_score * (5 / 10) + inactive_liquidity_score * (3 / 10)
                        + volatility_score * (2 / 10)))
      | _ \<Rightarrow> 100)"

text \<open>
  \<open>analyze\<close>. \<open>fetched\<close> is what \<open>_fetch_ticks\<close> came to. \<open>tvl_volatility\<close> is what
  \<open>_calculate_tvl_volatility\<close> came to: the exception of its fetch, or the quotient of
  numpy's standard deviation and mean.
\<close>

definition liquidity_analyze ::
  "liquidity_thresholds \<Rightarrow> (rat \<Rightarrow> rat) \<Rightarrow> int \<Rightarrow> int \<Rightarrow> fetch_error + tick list \<Rightarrow>
     fetch_error + rat \<Rightarrow> analysis_error + analyzer_result" where
  "liquidity_analyze thresholds np_sqrt current_tick tick_spacing fetched tvl_volatility =
     (case fetched of
        Inl e \<Rightarrow> Inl (FetchFailed e)
      | Inr ticks \<Rightarrow>
          if ticks = [] then
            Inr \<lparr> error = Some ''No tick data found for this pool'',
                  risk_flags = Some [''NO_DATA''],
                  risk_score = None,
                  metrics = [(''price_impact_100k'', JNone), (''price_impact_1m'', JNone),
                             (''active_liquidity_pct'', JNone), (''tvl_volatility_pct'', JNone)] \<rparr>
          else
            (let impact_100k = simulate_sell_order np_sqrt ticks 100000;
                 impact_1m = simulate_sell_order np_sqrt ticks 1000000;
                 active_liquidity_pct = calculate_active_liquidity current_tick tick_spacing ticks
             in case tvl_volatility of
                  Inl e \<Rightarrow> Inl (FetchFailed e)
                | Inr vol \<Rightarrow>
                    Inr \<lparr> error = None,
                          risk_flags =
                            Some (liquidity_generate_risk_flags thresholds (Some impact_100k)
                                    (Some impact_1m) (Some active_liquidity_pct) (Some vol)),
                          risk_score =
                            Some (of_int (liquidity_calculate_risk_score (Some impact_100k)
                                            (Some impact_1m) (Some active_liquidity_pct) (Some vol))),
                          metrics =
                            [(''price_impact_100k_pct'', JNum (py_round_ndigits impact_100k 4)),
                             (''price_impact_1m_pct'', JNum (py_round_ndigits impact_1m 4)),
                             (''active_liquidity_pct'', JNum (py_round_ndigits active_liquidity_pct 2)),
                             (''tvl_volatility_30d_pct'', JNum (py_round_ndigits vol 2)),
                             (''total_ticks'', JInt (int (length ticks)))] \<rparr>))"

subsection \<open>MarketRiskAnalyzer\<close>

record day_datum =
  tvl_usd :: rat
  volume_usd :: rat
  token0_price :: rat
  token1_price :: rat

record market_thresholds =
  utilization_rate_critical_low :: rat
  utilization_rate_low :: rat
  price_correlation_high_il_risk :: rat
  price_correlation_low_il_risk :: rat

definition calculate_avg_utilization :: "day_datum list \<Rightarrow> rat" where
  "calculate_avg_utilization pool_day_data =
     (let utilization_rates =
            map (\<lambda>d. volume_usd d / tvl_usd d) (filter (\<lambda>d. tvl_usd d > 0) pool_day_data)
      in if utilization_rates = [] then 0
         else sum_list utilization_rates / of_nat (length utilization_rates))"

text \<open>
  \<open>_calculate_price_correlation\<close>. \<open>np_corrcoef\<close> is numpy's Pearson coefficient of
  the two return series computed from the prices, with \<open>nan\<close> already read as 0; it is
  asked for only when there are at least two returns.
\<close>

definition calculate_price_correlation :: "(rat list \<Rightarrow> rat list \<Rightarrow> rat) \<Rightarrow> day_datum list \<Rightarrow> rat" where
  "calculate_price_correlation np_corrcoef pool_day_data =
     (let kept = filter (\<lambda>d. token0_price d > 0 \<and> token1_price d > 0) pool_day_data;
          token0_prices = map token0_price kept;
          token1_prices = map token1_price kept
      in if length token0_prices < 2 then 0
         else if length token0_prices - 1 < 2 then 0
         else np_corrcoef token0_prices token1_prices)"

definition determine_il_risk :: "market_thresholds \<Rightarrow> rat \<Rightarrow> string" where
  "determine_il_risk thresholds correlation =
     (if correlation < price_correlation_high_il_risk thresholds then ''VERY_HIGH''
      else if correlation < price_correlation_low_il_risk thresholds then ''HIGH''
      else if correlation < 7 / 10 then ''MEDIUM''
      else ''LOW'')"

definition market_generate_risk_flags :: "market_thresholds \<Rightarrow> rat \<Rightarrow> rat \<Rightarrow> string list" where
  "market_generate_risk_flags thresholds utilization correlation =
     (let flags =
            (if utilization < utilization_rate_critical_low thresholds
             then [''CRITICAL_LOW_UTILIZATION'']
             else if utilization < utilization_rate_low thresholds then [''LOW_UTILIZATION'']
             else []) @
            (if correlation < price_correlation_high_il_risk thresholds then [''VERY_HIGH_IL_RISK'']
             else if correlation < price_correlation_low_il_risk thresholds then [''HIGH_IL_RISK'']
             else [])
      in if flags \<noteq> [] then flags else [''LOW_RISK''])"

definition market_calculate_risk_score :: "rat \<Rightarrow> rat \<Rightarrow> int" where
  "market_calculate_risk_score utilization correlation =
     (let target_utilization = 5 / 100;
          utilization_score = min (max 0 (100 - (utilization / target_utilization * 100))) 100;
          correlation_score = (1 - correlation) / 2 * 100
      in py_round (utilization_score * (3 / 10) + correlation_score * (7 / 10)))"

definition market_analyze ::
  "market_thresholds \<Rightarrow> (rat list \<Rightarrow> rat list \<Rightarrow> rat) \<Rightarrow> fetch_error + day_datum list \<Rightarrow>
     analysis_error + analyzer_result" where
  "market_analyze thresholds np_corrcoef fetched =
     (case fetched of
        Inl e \<Rightarrow> Inl (FetchFailed e)
      | Inr pool_day_data \<Rightarrow>
          if pool_day_data = [] then
            Inr \<lparr> error = Some ''No historical data found for this pool'',
                  risk_flags = Some [''NO_DATA''],
                  risk_score = None,
                  metrics = [(''avg_utilization_rate'', JNone), (''price_correlation'', JNone),
                             (''il_risk_level'', JNone)] \<rparr>
          else
            (let avg_utilization = calculate_avg_utilization pool_day_data;
                 price_correlation = calculate_price_correlation np_corrcoef pool_day_data;
                 il_risk_level = determine_il_risk thresholds price_correlation
             in Inr \<lparr> error = None,
                      risk_flags =
                        Some (market_generate_risk_flags thresholds avg_utilization price_correlation),
                      risk_score =
                        Some (of_int (market_calculate_risk_score avg_utilization price_correlation)),
                      metrics =
                        [(''avg_utilization_rate'', JNum (py_round_ndigits avg_utilization 6)),
                         (''price_correlation'', JNum (py_round_ndigits price_correlation 4)),
                         (''il_risk_level'', JStr il_risk_level),
                         (''data_points'', JInt (int (length pool_day_data)))] \<rparr>))"

text \<open>The flags each analyzer can raise from a threshold.\<close>

definition concentration_threshold_flags :: "string set" where
  "concentration_threshold_flags =
     {''CRITICAL_TOP10_DOMINANCE'', ''HIGH_TOP10_DOMINANCE'', ''CRITICAL_GINI'', ''HIGH_GINI'',
      ''CRITICAL_HHI'', ''HIGH_HHI'', ''HIGH_MERCENARY_LIQUIDITY''}"

definition liquidity_threshold_flags :: "string set" where
  "liquidity_threshold_flags =
     {''CRITICAL_SLIPPAGE_100K'', ''HIGH_SLIPPAGE_100K'', ''CRITICAL_SLIPPAGE_1M'',
      ''HIGH_SLIPPAGE_1M'', ''LOW_ACTIVE_LIQUIDITY'', ''HIGH_TVL_VOLATILITY''}"

definition market_threshold_flags :: "string set" where
  "market_threshold_flags =
     {''CRITICAL_LOW_UTILIZATION'', ''LOW_UTILIZATION'', ''VERY_HIGH_IL_RISK'', ''HIGH_IL_RISK''}"

definition behavioral_threshold_flags :: "string set" where
  "behavioral_threshold_flags =
     {''CRITICAL_WASH_TRADING'', ''HIGH_WASH_TRADING'', ''CRITICAL_MEV_EXPOSURE'',
      ''HIGH_MEV_EXPOSURE''}"

text \<open>
  What the claim on flags asks of a returned result, given whether the fetched data was
  empty and the analyzer's threshold flags.
\<close>

definition flags_ok :: "bool \<Rightarrow> string set \<Rightarrow> analyzer_result \<Rightarrow> bool" where
  "flags_ok no_data threshold_flags r =
     (case risk_flags r of
        None \<Rightarrow> False
      | Some fs \<Rightarrow>
          fs \<noteq> [] \<and>
          (if no_data then fs = [''NO_DATA'']
           else fs = [''LOW_RISK''] \<or> set fs \<subseteq> threshold_flags))"

section \<open>Orchestrator (backend/workflows/rag)\<close>

text \<open>
  The dict a sub-agent node stores in the state. \<open>risk_score\<close> is a number or
  \<open>None\<close>. A connection is modelled by what \<open>send_message\<close> followed by
  \<open>_extract_result_from_response\<close> comes to for the request at hand: the extracted
  dict (it always has the three keys) or the exception \<open>send_message\<close> raised.
\<close>

record agent_result =
  agent_answer :: string
  agent_metadata :: jvalue
  agent_risk_score :: "rat option"

definition invoke_pool_risk :: "(string \<rightharpoonup> agent_result outcome) \<Rightarrow> agent_result" where
  "invoke_pool_risk remote_agent_connections =
     (case remote_agent_connections ''pool_risk'' of
        None \<Rightarrow>
          \<lparr> agent_answer = ''Pool Risk agent unavailable'',
            agent_metadata = JDict [(''error'', JStr ''Agent not discovered'')],
            agent_risk_score = Some 0 \<rparr>
      | Some (Returns r) \<Rightarrow> r
      | Some (Raises e) \<Rightarrow>
          \<lparr> agent_answer = ''Pool risk analysis failed: '' @ e,
            agent_metadata = JDict [(''error'', JStr e)],
            agent_risk_score = Some 0 \<rparr>)"

definition invoke_token_intel :: "(string \<rightharpoonup> agent_result outcome) \<Rightarrow> agent_result" where
  "invoke_token_intel remote_agent_connections =
     (case remote_agent_connections ''token_intelligence'' of
        None \<Rightarrow>
          \<lparr> agent_answer = ''Token Intelligence agent unavailable'',
            agent_metadata = JDict [(''error'', JStr ''Agent not discovered'')],
            agent_risk_score = Some 0 \<rparr>
      | Some (Returns r) \<Rightarrow> r
      | Some (Raises e) \<Rightarrow>
          \<lparr> agent_answer = ''Token intelligence analysis failed: '' @ e,
            agent_metadata = JDict [(''error'', JStr e)],
            agent_risk_score = Some 0 \<rparr>)"

record orchestrator_state =
  pool_risk_result :: "agent_result option"
  token_intel_result :: "agent_result option"
  final_answer :: "string option"
  state_answer :: "string option"

record orchestrator_output =
  out_answer :: string
  out_pool_risk_metadata :: jvalue
  out_token_intel_metadata :: jvalue
  out_composite_risk_score :: rat
  out_risk_score :: rat

text \<open>
  \<open>if pool_risk.get("risk_score")\<close>: the score counts when the key is there and its
  value is truthy, that is neither \<open>None\<close> nor zero.
\<close>

definition truthy_score :: "agent_result option \<Rightarrow> rat list" where
  "truthy_score r =
     (case r of
        None \<Rightarrow> []
      | Some a \<Rightarrow> (case agent_risk_score a of None \<Rightarrow> [] | Some s \<Rightarrow> if s \<noteq> 0 then [s] else []))"

definition metadata_of :: "agent_result option \<Rightarrow> jvalue" where
  "metadata_of r = (case r of None \<Rightarrow> JDict [] | Some a \<Rightarrow> agent_metadata a)"

text \<open>
  The builtin \<open>sum\<close> over floats: it starts from 0 and adds from left to right (there
  are at most two summands here).
\<close>

definition py_sum :: "rat list \<Rightarrow> rat" where
  "py_sum xs = foldl (\<lambda>acc v. fl (acc + v)) 0 xs"

definition finalize_output :: "orchestrator_state \<Rightarrow> orchestrator_output" where
  "finalize_output state =
     (let risk_scores = truthy_score (pool_risk_result state) @ truthy_score (token_intel_result state);
          composite_risk =
            (if risk_scores \<noteq> [] then fl (py_sum risk_scores / of_nat (length risk_scores)) else 0)
      in \<lparr> out_answer =
             (case final_answer state of
                Some a \<Rightarrow> a
              | None \<Rightarrow> (case state_answer state of Some a \<Rightarrow> a | None \<Rightarrow> ''No answer generated'')),
           out_pool_risk_metadata = metadata_of (pool_risk_result state),
           out_token_intel_metadata = metadata_of (token_intel_result state),
           out_composite_risk_score = composite_risk,
           out_risk_score = composite_risk \<rparr>)"

text \<open>
  What the state holds of an agent's score, as \<open>finalize_output\<close> reads it: a score
  that counts (the result is there and its score is neither \<open>None\<close> nor zero), or none.
\<close>

definition has_score :: "agent_result option \<Rightarrow> rat \<Rightarrow> bool" where
  "has_score r x =
     (case r of None \<Rightarrow> False | Some a \<Rightarrow> agent_risk_score a = Some x \<and> x \<noteq> 0)"

definition no_score :: "agent_result option \<Rightarrow> bool" where
  "no_score r =
     (case r of
        None \<Rightarrow> True
      | Some a \<Rightarrow> agent_risk_score a = None \<or> agent_risk_score a = Some 0)"

text \<open>
  The graph of \<open>orchestrator.py\<close> after discovery and routing: \<open>token_intel\<close> goes to the
  token agent alone, every other decision to the pool agent first and, when it is
  \<open>both\<close>, to the token agent next; then synthesis (\<open>synthesized\<close> is the text it produced), then
  \<open>finalize_output\<close>.
\<close>

definition run_orchestrator ::
  "(string \<rightharpoonup> agent_result outcome) \<Rightarrow> string \<Rightarrow> string \<Rightarrow> orchestrator_output" where
  "run_orchestrator remote_agent_connections routing_decision synthesized =
     (let s0 = \<lparr> pool_risk_result = None, token_intel_result = None, final_answer = None,
                 state_answer = None \<rparr>;
          s1 = (if routing_decision = ''token_intel'' then s0
                else s0\<lparr> pool_risk_result := Some (invoke_pool_risk remote_agent_connections) \<rparr>);
          s2 = (if routing_decision = ''token_intel'' \<or> routing_decision = ''both''
                then s1\<lparr> token_intel_result := Some (invoke_token_intel remote_agent_connections) \<rparr>
                else s1)
      in finalize_output (s2\<lparr> final_answer := Some synthesized \<rparr>))"

text \<open>A table of five positions, ids in increasing order.\<close>

definition example_db :: "position list" where
  "example_db =
     [mk_position ''0x01'' 100, mk_position ''0x02'' 100, mk_position ''0x03'' 100,
      mk_position ''0x04'' 100, mk_position ''0x05'' 100]"

section \<open>Concrete inputs for the analyzers and the orchestrator\<close>

definition example_behavioral_thresholds :: behavioral_thresholds where
  "example_behavioral_thresholds =
     \<lparr> wash_trading_critical_pct = 15, wash_trading_high_pct = 5,
       mev_exposure_critical_pct = 10, mev_exposure_high_pct = 5 \<rparr>"

definition example_days :: lp_age_thresholds_days where
  "example_days = \<lparr> mercenary = 7, long_term = 90 \<rparr>"

definition example_swaps :: "swap list" where
  "example_swaps =
     [mk_swap ''1'' ''100'' ''0xA'' ''0xB'' ''0xA'', mk_swap ''2'' ''100'' ''0xB'' ''0xA'' ''0xB'']"

definition example_token_agent :: "string \<rightharpoonup> agent_result outcome" where
  "example_token_agent =
     map_of [(''token_intelligence'',
              Returns \<lparr> agent_answer = ''token ok'', agent_metadata = JDict [],
                        agent_risk_score = Some 60 \<rparr>)]"


text \<open>Both agents discovered and answering; the pool agent reports the score 0.\<close>

definition example_zero_pool_agents :: "string \<rightharpoonup> agent_result outcome" where
  "example_zero_pool_agents =
     map_of [(''pool_risk'',
              Returns \<lparr> agent_answer = ''pool ok'', agent_metadata = JDict [],
                        agent_risk_score = Some 0 \<rparr>),
             (''token_intelligence'',
              Returns \<lparr> agent_answer = ''token ok'', agent_metadata = JDict [],
                        agent_risk_score = Some 60 \<rparr>)]"

definition example_concentration_result :: analyzer_result where
  "example_concentration_result =
     \<lparr> error = None,
       risk_flags = Some [''CRITICAL_TOP10_DOMINANCE'', ''HIGH_HHI'', ''HIGH_MERCENARY_LIQUIDITY''],
       risk_score = Some 40,
       metrics =
         [(''gini_coefficient'', JNum 0),
          (''herfindahl_hirschman_index'', JNum 2000),
          (''top10_dominance_pct'', JNum 100),
          (''lp_age_distribution'',
           JDict [(''mercenary'', JDict [(''count'', JInt 5), (''liquidity_pct'', JNum 100)]),
                  (''medium_term'', JDict [(''count'', JInt 0), (''liquidity_pct'', JNum 0)]),
                  (''long_term'', JDict [(''count'', JInt 0), (''liquidity_pct'', JNum 0)])]),
          (''total_positions'', JInt 5)] \<rparr>"

definition example_behavioral_result :: analyzer_result where
  "example_behavioral_result =
     \<lparr> error = None,
       risk_flags = Some [''CRITICAL_WASH_TRADING''],
       risk_score = Some 100,
       metrics =
         [(''wash_trading_pct'', JNum 200), (''mev_exposure_pct'', JNum 0),
          (''total_swaps_analyzed'', JInt 2),
          (''wash_trading_patterns'', JInt 2),
          (''sandwich_victims'', JInt 0),
          (''suspicious_patterns'',
           JList [JDict [(''block'', JStr ''100''),
                         (''addresses'', JList [JStr ''0xA'', JStr ''0xB'']),
                         (''pattern'', JStr ''circular'')],
                  JDict [(''block'', JStr ''100''),
                         (''addresses'', JList [JStr ''0xB'', JStr ''0xA'']),
                         (''pattern'', JStr ''circular'')]])] \<rparr>"

definition example_no_ticks_result :: analyzer_result where
  "example_no_ticks_result =
     \<lparr> error = Some ''No tick data found for this pool'',
       risk_flags = Some [''NO_DATA''],
       risk_score = None,
       metrics = [(''price_impact_100k'', JNone), (''price_impact_1m'', JNone),
                  (''active_liquidity_pct'', JNone), (''tvl_volatility_pct'', JNone)] \<rparr>"

definition example_no_days_result :: analyzer_result where
  "example_no_days_result =
     \<lparr> error = Some ''No historical data found for this pool'',
       risk_flags = Some [''NO_DATA''],
       risk_score = None,
       metrics = [(''avg_utilization_rate'', JNone), (''price_correlation'', JNone),
                  (''il_risk_level'', JNone)] \<rparr>"

definition example_liquidity_thresholds :: liquidity_thresholds where
  "example_liquidity_thresholds =
     \<lparr> price_impact_100k_critical_pct = 5, price_impact_100k_high_pct = 2,
       price_impact_1m_critical_pct = 10, price_impact_1m_high_pct = 5,
       active_liquidity_low_pct = 30, tvl_volatility_high_pct = 20 \<rparr>"

definition example_market_thresholds :: market_thresholds where
  "example_market_thresholds =
     \<lparr> utilization_rate_critical_low = 1 / 1000, utilization_rate_low = 1 / 100,
       price_correlation_high_il_risk = 0, price_correlation_low_il_risk = 3 / 10 \<rparr>"

chapter \<open>Verified properties\<close>

section \<open>RiskScorer and planning\<close>

lemma score_flags_list:
  "composite_flags (score cfg a b c d) =
     (if filter (\<lambda>f. f \<noteq> ''LOW_RISK'') (get_flags a @ get_flags b @ get_flags c @ get_flags d) \<noteq> []
      then filter (\<lambda>f. f \<noteq> ''LOW_RISK'') (get_flags a @ get_flags b @ get_flags c @ get_flags d)
      else [''LOW_RISK''])"
  by (simp add: score_def Let_def)

lemma real_flags_mset:
  "mset (filter (\<lambda>f. f \<noteq> ''LOW_RISK'') (get_flags a @ get_flags b @ get_flags c @ get_flags d)) =
     filter_mset (\<lambda>f. f \<noteq> ''LOW_RISK'') (\<Sum>r\<in>#mset [a, b, c, d]. mset (get_flags r))"
  by (simp add: ac_simps)

text \<open>
  Claim C1, as amended. Under every permutation of the four results over the four argument
  positions the flags of \<open>RiskScorer.score\<close> stay the same multiset, hence the same set.
  The composite score and the risk level are left out: they follow the order of the
  arguments.
\<close>

theorem score_permutation:
  assumes "mset [a', b', c', d'] = mset [a, b, c, d]"
  shows "mset (composite_flags (score cfg a' b' c' d')) = mset (composite_flags (score cfg a b c d)) \<and>
         set (composite_flags (score cfg a' b' c' d')) = set (composite_flags (score cfg a b c d))"
proof -
  let ?real = "\<lambda>a b c d. filter (\<lambda>f. f \<noteq> ''LOW_RISK'')
                  (get_flags a @ get_flags b @ get_flags c @ get_flags d)"
  have real: "mset (?real a' b' c' d') = mset (?real a b c d)"
    unfolding real_flags_mset assms ..
  then have empty: "?real a' b' c' d' = [] \<longleftrightarrow> ?real a b c d = []"
    by (metis mset_zero_iff)
  have m: "mset (composite_flags (score cfg a' b' c' d')) = mset (composite_flags (score cfg a b c d))"
  proof (cases "?real a b c d = []")
    case True
    then show ?thesis using empty by (simp only: score_flags_list) simp
  next
    case False
    then show ?thesis using empty real by (simp only: score_flags_list) simp
  qed
  then have "set (composite_flags (score cfg a' b' c' d')) = set (composite_flags (score cfg a b c d))"
    by (rule mset_eq_setD)
  then show ?thesis using m by simp
qed

text \<open>
  The hypothesis of C1 at a concrete permutation.
\<close>

theorem score_permutation_witness:
  "mset [flagged 40 [''LOW_RISK''], flagged 100 [''HIGH_GINI''], flagged 0 [''NO_DATA''], flagged 20 []]
     = mset [flagged 100 [''HIGH_GINI''], flagged 40 [''LOW_RISK''], flagged 20 [], flagged 0 [''NO_DATA'']] \<and>
   composite_flags (score dyadic_config (flagged 40 [''LOW_RISK'']) (flagged 100 [''HIGH_GINI''])
          (flagged 0 [''NO_DATA'']) (flagged 20 [])) = [''HIGH_GINI'', ''NO_DATA''] \<and>
   set (composite_flags (score dyadic_config (flagged 100 [''HIGH_GINI'']) (flagged 40 [''LOW_RISK''])
          (flagged 20 []) (flagged 0 [''NO_DATA'']))) = {''HIGH_GINI'', ''NO_DATA''}"
proof -
  have h: "mset [flagged 40 [''LOW_RISK''], flagged 100 [''HIGH_GINI''], flagged 0 [''NO_DATA''], flagged 20 []]
     = mset [flagged 100 [''HIGH_GINI''], flagged 40 [''LOW_RISK''], flagged 20 [], flagged 0 [''NO_DATA'']]"
    by (simp add: add_mset_commute)
  have f: "composite_flags (score dyadic_config (flagged 40 [''LOW_RISK'']) (flagged 100 [''HIGH_GINI''])
          (flagged 0 [''NO_DATA'']) (flagged 20 [])) = [''HIGH_GINI'', ''NO_DATA'']"
    by (simp add: score_flags_list flagged_def get_flags_def)
  show ?thesis
    using score_permutation [OF h, of dyadic_config] h f by simp
qed

text \<open>
  Claim C1 as stated fails for the score and the level. With the weights 1/2, 1/4, 1/8,
  1/8 swapping the first two results moves the composite score from 50 to 25 and the level
  from MEDIUM to LOW: each position has its own weight. With four equal weights 0.3 the
  scores 0, 1, 2, 82 give 25 and LOW, and with the last two swapped 26 and MEDIUM: the
  float sum is 25.499999999999996 in one order and 25.5 in the other.
\<close>

theorem score_permutation_counterexample:
  "composite_score (score dyadic_config (flagged 100 [''LOW_RISK'']) (flagged 0 [''LOW_RISK''])
      (flagged 0 [''LOW_RISK'']) (flagged 0 [''LOW_RISK''])) = 50 \<and>
   composite_score (score dyadic_config (flagged 0 [''LOW_RISK'']) (flagged 100 [''LOW_RISK''])
      (flagged 0 [''LOW_RISK'']) (flagged 0 [''LOW_RISK''])) = 25 \<and>
   risk_level (score dyadic_config (flagged 100 [''LOW_RISK'']) (flagged 0 [''LOW_RISK''])
      (flagged 0 [''LOW_RISK'']) (flagged 0 [''LOW_RISK''])) = ''MEDIUM'' \<and>
   risk_level (score dyadic_config (flagged 0 [''LOW_RISK'']) (flagged 100 [''LOW_RISK''])
      (flagged 0 [''LOW_RISK'']) (flagged 0 [''LOW_RISK''])) = ''LOW'' \<and>
   composite_score (score equal_config (flagged 0 [''LOW_RISK'']) (flagged 1 [''LOW_RISK''])
      (flagged 2 [''LOW_RISK'']) (flagged 82 [''LOW_RISK''])) = 25 \<and>
   composite_score (score equal_config (flagged 0 [''LOW_RISK'']) (flagged 1 [''LOW_RISK''])
      (flagged 82 [''LOW_RISK'']) (flagged 2 [''LOW_RISK''])) = 26 \<and>
   risk_level (score equal_config (flagged 0 [''LOW_RISK'']) (flagged 1 [''LOW_RISK''])
      (flagged 2 [''LOW_RISK'']) (flagged 82 [''LOW_RISK''])) = ''LOW'' \<and>
   risk_level (score equal_config (flagged 0 [''LOW_RISK'']) (flagged 1 [''LOW_RISK''])
      (flagged 82 [''LOW_RISK'']) (flagged 2 [''LOW_RISK''])) = ''MEDIUM''"
  by code_simp

lemma count_list_filter_neq:
  "f \<noteq> g \<Longrightarrow> count_list (filter (\<lambda>x. x \<noteq> g) xs) f = count_list xs f"
  by (induction xs) auto

text \<open>
  Claim C7, as amended. The flags of the composite result are the four flag lists
  concatenated in argument order with every \<open>LOW_RISK\<close> removed, or \<open>["LOW_RISK"]\<close>
  when nothing is left. So, as a set, they are the union of the four lists without the
  sentinel; every other flag occurs as often as in the four lists together (nothing is
  deduplicated); and when no list holds another flag the result is \<open>["LOW_RISK"]\<close>.
\<close>

theorem score_flags_concatenation:
  "composite_flags (score cfg a b c d) =
     (if filter (\<lambda>f. f \<noteq> ''LOW_RISK'') (get_flags a @ get_flags b @ get_flags c @ get_flags d) = []
      then [''LOW_RISK'']
      else filter (\<lambda>f. f \<noteq> ''LOW_RISK'')
             (get_flags a @ get_flags b @ get_flags c @ get_flags d)) \<and>
   set (composite_flags (score cfg a b c d)) =
     (if (set (get_flags a) \<union> set (get_flags b) \<union> set (get_flags c) \<union> set (get_flags d))
           \<subseteq> {''LOW_RISK''}
      then {''LOW_RISK''}
      else (set (get_flags a) \<union> set (get_flags b) \<union> set (get_flags c) \<union> set (get_flags d))
           - {''LOW_RISK''}) \<and>
   ((set (get_flags a) \<union> set (get_flags b) \<union> set (get_flags c) \<union> set (get_flags d))
           \<subseteq> {''LOW_RISK''} \<longrightarrow> composite_flags (score cfg a b c d) = [''LOW_RISK'']) \<and>
   (f \<noteq> ''LOW_RISK'' \<longrightarrow>
      count_list (composite_flags (score cfg a b c d)) f =
        count_list (get_flags a) f + count_list (get_flags b) f +
        count_list (get_flags c) f + count_list (get_flags d) f)"
proof -
  let ?all = "get_flags a @ get_flags b @ get_flags c @ get_flags d"
  let ?crit = "filter (\<lambda>f. f \<noteq> ''LOW_RISK'') ?all"
  have out: "composite_flags (score cfg a b c d) = (if ?crit \<noteq> [] then ?crit else [''LOW_RISK''])"
    by (rule score_flags_list)
  have p0: "composite_flags (score cfg a b c d) = (if ?crit = [] then [''LOW_RISK''] else ?crit)"
    unfolding out by simp
  have empty: "?crit = [] \<longleftrightarrow> set ?all \<subseteq> {''LOW_RISK''}"
    by (auto simp: filter_empty_conv)
  have p1: "set (composite_flags (score cfg a b c d)) =
     (if set ?all \<subseteq> {''LOW_RISK''} then {''LOW_RISK''} else set ?all - {''LOW_RISK''})"
    unfolding out using empty by auto
  have p2: "set ?all \<subseteq> {''LOW_RISK''} \<longrightarrow> composite_flags (score cfg a b c d) = [''LOW_RISK'']"
    unfolding out using empty by simp
  have p3: "f \<noteq> ''LOW_RISK'' \<longrightarrow>
      count_list (composite_flags (score cfg a b c d)) f = count_list ?all f"
  proof
    assume f: "f \<noteq> ''LOW_RISK''"
    show "count_list (composite_flags (score cfg a b c d)) f = count_list ?all f"
    proof (cases "?crit = []")
      case True
      then have "f \<notin> set ?all" using f empty by blast
      then have "count_list ?all f = 0" by (simp add: count_list_0_iff)
      then show ?thesis unfolding out using True f by simp
    next
      case False
      then show ?thesis unfolding out using count_list_filter_neq [OF f] by simp
    qed
  qed
  have p123: "set (composite_flags (score cfg a b c d)) =
     (if (set (get_flags a) \<union> set (get_flags b) \<union> set (get_flags c) \<union> set (get_flags d))
           \<subseteq> {''LOW_RISK''}
      then {''LOW_RISK''}
      else (set (get_flags a) \<union> set (get_flags b) \<union> set (get_flags c) \<union> set (get_flags d))
           - {''LOW_RISK''}) \<and>
   ((set (get_flags a) \<union> set (get_flags b) \<union> set (get_flags c) \<union> set (get_flags d))
           \<subseteq> {''LOW_RISK''} \<longrightarrow> composite_flags (score cfg a b c d) = [''LOW_RISK'']) \<and>
   (f \<noteq> ''LOW_RISK'' \<longrightarrow>
      count_list (composite_flags (score cfg a b c d)) f =
        count_list (get_flags a) f + count_list (get_flags b) f +
        count_list (get_flags c) f + count_list (get_flags d) f)"
    using p1 p2 p3 by (simp add: Un_assoc)
  show ?thesis using p0 p123 by (rule conjI)
qed

text \<open>
  C7 at concrete inputs: the flags come in argument order, a flag raised by two components
  is kept twice, and four results without a real flag give the sentinel.
\<close>

theorem score_flags_concatenation_witness:
  "composite_flags (score dyadic_config (flagged 0 [''HIGH_HHI'', ''LOW_RISK'']) (no_data_result ''b'')
      (flagged 0 [''LOW_RISK'']) (flagged 0 [''HIGH_MEV_EXPOSURE'', ''HIGH_HHI''])) =
     [''HIGH_HHI'', ''NO_DATA'', ''HIGH_MEV_EXPOSURE'', ''HIGH_HHI''] \<and>
   count_list (composite_flags (score dyadic_config (no_data_result ''a'') (no_data_result ''b'')
      (flagged 0 [''LOW_RISK'']) (flagged 0 [''LOW_RISK'']))) ''NO_DATA'' = 2 \<and>
   composite_flags (score dyadic_config (flagged 0 [''LOW_RISK'']) (flagged 0 [])
      (flagged 0 [''LOW_RISK'']) (flagged 0 [''LOW_RISK''])) = [''LOW_RISK'']"
  using score_flags_concatenation [of dyadic_config "flagged 0 [''HIGH_HHI'', ''LOW_RISK'']"
          "no_data_result ''b''" "flagged 0 [''LOW_RISK'']"
          "flagged 0 [''HIGH_MEV_EXPOSURE'', ''HIGH_HHI'']" "''NO_DATA''"]
        score_flags_concatenation [of dyadic_config "no_data_result ''a''" "no_data_result ''b''"
          "flagged 0 [''LOW_RISK'']" "flagged 0 [''LOW_RISK'']" "''NO_DATA''"]
        score_flags_concatenation [of dyadic_config "flagged 0 [''LOW_RISK'']" "flagged 0 []"
          "flagged 0 [''LOW_RISK'']" "flagged 0 [''LOW_RISK'']" "''NO_DATA''"]
  by (simp add: get_flags_def no_data_result_def flagged_def)

text \<open>
  Claim C7 as stated fails: two components that report \<open>NO_DATA\<close> leave the flag twice in
  the composite list, which is therefore not deduplicated.
\<close>

theorem score_flags_dedup_counterexample:
  "composite_flags (score dyadic_config (no_data_result ''No positions found for this pool'')
      (no_data_result ''No tick data found for this pool'')
      (flagged 0 [''LOW_RISK'']) (flagged 0 [''LOW_RISK''])) = [''NO_DATA'', ''NO_DATA''] \<and>
   \<not> distinct (composite_flags (score dyadic_config (no_data_result ''No positions found for this pool'')
      (no_data_result ''No tick data found for this pool'')
      (flagged 0 [''LOW_RISK'']) (flagged 0 [''LOW_RISK''])))"
  by (simp add: score_flags_list get_flags_def no_data_result_def flagged_def)

text \<open>
  Claim C2. When the planning oracle returns a plan with \<open>needs_comprehensive\<close> set, the
  tool list of the plan node is the fixed list of the four analyzers, whatever tool names
  the oracle proposed and whatever tools are registered, and the graph goes on to execute
  them.
\<close>

theorem plan_comprehensive:
  "needs_comprehensive p \<Longrightarrow>
     tools_to_call (plan_node tools_by_name (Returns p)) =
       [''analyze_concentration_risk'', ''analyze_liquidity_depth'',
        ''analyze_market_risk'', ''analyze_behavioral_risk''] \<and>
     route_after_plan (plan_node tools_by_name (Returns p)) = ExecuteTools"
  by (simp add: plan_node_def route_after_plan_def Let_def)

text \<open>
  C2 at a plan that proposes the composite tool and an unknown tool, with no tool registered.
\<close>

theorem plan_comprehensive_witness:
  "needs_comprehensive \<lparr> reasoning = ''full'', plan_tools_to_call = [''calculate_composite_risk_score'', ''x''],
      needs_comprehensive = True \<rparr> \<and>
   tools_to_call (plan_node Map.empty
      (Returns \<lparr> reasoning = ''full'', plan_tools_to_call = [''calculate_composite_risk_score'', ''x''],
         needs_comprehensive = True \<rparr>)) =
       [''analyze_concentration_risk'', ''analyze_liquidity_depth'',
        ''analyze_market_risk'', ''analyze_behavioral_risk'']"
  using plan_comprehensive [of "\<lparr> reasoning = ''full'',
      plan_tools_to_call = [''calculate_composite_risk_score'', ''x''], needs_comprehensive = True \<rparr>" Map.empty]
  by simp

section \<open>The execute node\<close>

lemma single_tool_entry:
  "entry_tool (fst (execute_single_tool tbn addr name)) = Some name"
  by (simp add: execute_single_tool_def invoke_entry_def error_entry_def result_entry_def
        skip_entry_def split: option.splits outcome.splits)

lemma single_tool_calls:
  "c \<in> set (snd (execute_single_tool tbn addr name)) \<Longrightarrow> fst c = name"
  by (auto simp: execute_single_tool_def invoke_entry_def split: option.splits outcome.splits if_splits)

lemma length_alist_update: "length (AList.update k v al) \<le> Suc (length al)"
  by (induction al) auto

lemma length_risk_results:
  "length (risk_results_of rs acc) \<le> length acc + length (filter (\<lambda>r. entry_result r \<noteq> None) rs)"
proof (induction rs arbitrary: acc)
  case Nil
  then show ?case by simp
next
  case (Cons r rs)
  show ?case
  proof (cases "entry_result r")
    case None
    then show ?thesis using Cons.IH [of acc] by simp
  next
    case (Some v)
    show ?thesis
    proof (cases "entry_tool r")
      case None
      then show ?thesis using Some Cons.IH [of acc] by simp
    next
      case (Some name)
      have "length (AList.update name v acc) \<le> Suc (length acc)"
        by (rule length_alist_update)
      then show ?thesis
        using Some \<open>entry_result r = Some v\<close> Cons.IH [of "AList.update name v acc"] by simp
    qed
  qed
qed

lemma extract_no_composite:
  "\<forall>tr\<in>set rs. entry_tool tr \<noteq> Some ''calculate_composite_risk_score'' \<Longrightarrow>
     extract_composite rs = Inr (JNone, JNone)"
  by (induction rs) auto

lemma finalize_no_composite:
  assumes "\<forall>tr\<in>set (tool_results upd). entry_tool tr \<noteq> Some ''calculate_composite_risk_score''"
  shows "no_risk_fields (finalize_after upd state)"
  using extract_no_composite [OF assms]
  by (simp add: no_risk_fields_def finalize_after_def finalize_node_def Let_def)

lemma execute_tools_shape:
  assumes "addr \<noteq> []"
  shows "(tool_results (execute_tools_node tbn to_call (Some addr)) = wave_results tbn to_call addr \<and>
          invocations (execute_tools_node tbn to_call (Some addr)) = wave_invocations tbn to_call addr) \<or>
         (4 \<le> length (risk_results_of (wave_results tbn to_call addr) []) \<and>
          (\<exists>t args. tbn ''calculate_composite_risk_score'' = Some t \<and>
             invocations (execute_tools_node tbn to_call (Some addr)) =
               wave_invocations tbn to_call addr @ [(''calculate_composite_risk_score'', args)] \<and>
             ((\<exists>e. t args = Raises e \<and>
                 tool_results (execute_tools_node tbn to_call (Some addr)) = wave_results tbn to_call addr) \<or>
              (\<exists>r. t args = Returns r \<and>
                 tool_results (execute_tools_node tbn to_call (Some addr)) =
                   wave_results tbn to_call addr @ [result_entry ''calculate_composite_risk_score'' r]))))"
  using assms unfolding wave_results_def wave_invocations_def wave_def execute_tools_node_def Let_def
  by (auto split: option.splits outcome.splits)

lemma wave_results_tool:
  "r \<in> set (wave_results tbn to_call addr) \<Longrightarrow> entry_tool r \<noteq> Some ''calculate_composite_risk_score''"
  by (auto simp: wave_results_def wave_def single_tool_entry)

lemma wave_invocations_name:
  "c \<in> set (wave_invocations tbn to_call addr) \<Longrightarrow> fst c \<noteq> ''calculate_composite_risk_score''"
  by (auto simp: wave_invocations_def wave_def dest: single_tool_calls)

lemma wave_successes:
  "filter (\<lambda>r. entry_tool r \<noteq> Some composite_name \<and> entry_result r \<noteq> None) (wave_results tbn to_call addr)
     = filter (\<lambda>r. entry_result r \<noteq> None) (wave_results tbn to_call addr)"
  by (rule filter_cong) (auto simp: composite_name_def dest: wave_results_tool)

lemma execute_tools_addr:
  assumes "addr \<noteq> []"
  shows "composite_name \<notin> fst ` set (butlast (invocations (execute_tools_node tbn to_call (Some addr)))) \<and>
     (composite_invoked (execute_tools_node tbn to_call (Some addr)) \<longrightarrow>
        4 \<le> length (successes (execute_tools_node tbn to_call (Some addr)))) \<and>
     (\<not> composite_invoked (execute_tools_node tbn to_call (Some addr)) \<or>
      composite_raised tbn (execute_tools_node tbn to_call (Some addr)) \<longrightarrow>
        composite_entries (execute_tools_node tbn to_call (Some addr)) = [] \<and>
        no_risk_fields (finalize_after (execute_tools_node tbn to_call (Some addr)) state))"
proof -
  let ?upd = "execute_tools_node tbn to_call (Some addr)"
  let ?res = "wave_results tbn to_call addr"
  let ?calls = "wave_invocations tbn to_call addr"
  have nc: "composite_name \<notin> fst ` set ?calls"
    by (auto simp: composite_name_def dest: wave_invocations_name)
  have nr: "\<forall>r\<in>set ?res. entry_tool r \<noteq> Some ''calculate_composite_risk_score''"
    using wave_results_tool by blast
  have le: "length (risk_results_of ?res []) \<le> length (filter (\<lambda>r. entry_result r \<noteq> None) ?res)"
    using length_risk_results [of ?res "[]"] by simp
  consider (plain) "tool_results ?upd = ?res" "invocations ?upd = ?calls"
    | (raised) t args e where "4 \<le> length (risk_results_of ?res [])"
        "tbn ''calculate_composite_risk_score'' = Some t"
        "invocations ?upd = ?calls @ [(''calculate_composite_risk_score'', args)]"
        "t args = Raises e" "tool_results ?upd = ?res"
    | (returned) t args r where "4 \<le> length (risk_results_of ?res [])"
        "tbn ''calculate_composite_risk_score'' = Some t"
        "invocations ?upd = ?calls @ [(''calculate_composite_risk_score'', args)]"
        "t args = Returns r"
        "tool_results ?upd = ?res @ [result_entry ''calculate_composite_risk_score'' r]"
    using execute_tools_shape [OF assms, of tbn to_call] by blast
  then show ?thesis
  proof cases
    case plain
    have a: "composite_name \<notin> fst ` set (butlast (invocations ?upd))"
      using nc plain(2) by (auto dest: in_set_butlastD)
    have b: "\<not> composite_invoked ?upd"
      using nc plain(2) by (simp add: composite_invoked_def)
    have c: "composite_entries ?upd = []"
      using nr plain(1) by (simp add: composite_entries_def composite_name_def filter_empty_conv)
    have d: "no_risk_fields (finalize_after ?upd state)"
      using nr plain(1) by (intro finalize_no_composite) simp
    show ?thesis using a b c d by simp
  next
    case raised
    have a: "composite_name \<notin> fst ` set (butlast (invocations ?upd))"
      using nc raised(3) by simp
    have succ: "successes ?upd = filter (\<lambda>r. entry_result r \<noteq> None) ?res"
      by (simp only: successes_def raised(5) wave_successes)
    have b: "4 \<le> length (successes ?upd)"
      unfolding succ using raised(1) le by (rule order_trans)
    have c: "composite_entries ?upd = []"
      using nr raised(5) by (simp add: composite_entries_def composite_name_def filter_empty_conv)
    have d: "no_risk_fields (finalize_after ?upd state)"
      using nr raised(5) by (intro finalize_no_composite) simp
    show ?thesis using a b c d by simp
  next
    case returned
    have a: "composite_name \<notin> fst ` set (butlast (invocations ?upd))"
      using nc returned(3) by simp
    have "filter (\<lambda>r. entry_tool r \<noteq> Some composite_name \<and> entry_result r \<noteq> None)
            [result_entry ''calculate_composite_risk_score'' r] = []"
      by (simp add: result_entry_def composite_name_def)
    then have succ: "successes ?upd = filter (\<lambda>r. entry_result r \<noteq> None) ?res"
      by (simp only: successes_def returned(5) filter_append wave_successes append_Nil2)
    have b: "4 \<le> length (successes ?upd)"
      unfolding succ using returned(1) le by (rule order_trans)
    have inv: "composite_invoked ?upd"
      using returned(3) by (simp add: composite_invoked_def composite_name_def)
    have "list_all (\<lambda>c. fst c \<noteq> composite_name) ?calls"
      using nc by (force simp: list_all_iff)
    then have "\<not> list_ex (\<lambda>c. fst c = composite_name \<and> (case t (snd c) of Raises e \<Rightarrow> True | Returns r \<Rightarrow> False)) ?calls"
      by (auto simp: list_all_iff list_ex_iff)
    then have nraised: "\<not> composite_raised tbn ?upd"
      using returned(2,3,4) by (simp add: composite_raised_def composite_name_def)
    show ?thesis using a b inv nraised by simp
  qed
qed

text \<open>
  Claim C10. In the execute node the composite tool is never called in the first wave: a
  call of it can only be the last call. It is called only when at least four entries of
  the other tools carry a result. When it is not called, or its call raises,
  \<open>tool_results\<close> holds no entry at all for the composite tool, and the finalize node
  returns metadata without \<open>risk_score\<close> and \<open>risk_level\<close>.
\<close>

theorem execute_tools_composite:
  "composite_name \<notin> fst ` set (butlast (invocations (execute_tools_node tbn to_call pool_address))) \<and>
   (composite_invoked (execute_tools_node tbn to_call pool_address) \<longrightarrow>
      4 \<le> length (successes (execute_tools_node tbn to_call pool_address))) \<and>
   (\<not> composite_invoked (execute_tools_node tbn to_call pool_address) \<or>
    composite_raised tbn (execute_tools_node tbn to_call pool_address) \<longrightarrow>
      composite_entries (execute_tools_node tbn to_call pool_address) = [] \<and>
      no_risk_fields (finalize_after (execute_tools_node tbn to_call pool_address) state))"
proof (cases "\<exists>addr. pool_address = Some addr \<and> addr \<noteq> []")
  case True
  then show ?thesis using execute_tools_addr by blast
next
  case False
  then have upd: "execute_tools_node tbn to_call pool_address =
      \<lparr> tool_results =
           [\<lparr> entry_tool = None, entry_result = None,
               entry_error = Some ''No pool address provided'', entry_skip = False \<rparr>],
         execute_exit_flag = True, invocations = [] \<rparr>"
    by (cases pool_address) (simp_all add: execute_tools_node_def)
  show ?thesis
    unfolding upd
    by (simp add: composite_invoked_def composite_entries_def no_risk_fields_def finalize_after_def
          finalize_node_def Let_def)
qed

text \<open>
  C10 with four analyzers that succeed and a composite tool that raises.
\<close>

theorem execute_tools_composite_witness:
  "composite_invoked (execute_tools_node example_tools example_to_call (Some ''0xpool'')) \<and>
   composite_raised example_tools (execute_tools_node example_tools example_to_call (Some ''0xpool'')) \<and>
   4 \<le> length (successes (execute_tools_node example_tools example_to_call (Some ''0xpool''))) \<and>
   composite_entries (execute_tools_node example_tools example_to_call (Some ''0xpool'')) = [] \<and>
   no_risk_fields (finalize_after (execute_tools_node example_tools example_to_call (Some ''0xpool''))
     example_state)"
proof -
  have inv: "composite_invoked (execute_tools_node example_tools example_to_call (Some ''0xpool''))"
    by code_simp
  have rsd: "composite_raised example_tools
      (execute_tools_node example_tools example_to_call (Some ''0xpool''))"
    by code_simp
  show ?thesis
    using execute_tools_composite [of example_tools example_to_call "Some ''0xpool''" example_state]
      inv rsd
    by simp
qed

section \<open>Retrying and wash trading\<close>

text \<open>
  Claim C4 at the failing input. The first attempt is answered by a 2xx body with GraphQL
  errors, with three attempts configured: one request is posted, nothing is slept, and the
  GraphQL exception is what the call ends with. The response is not retried.
\<close>

theorem retry_graphql_error_not_retried:
  "execute_with_retry example_pagination graphql_error_net =
     \<lparr> returned = Inl (GraphQLException ''bad query''), posts = 1, sleeps = [] \<rparr>"
  by code_simp

text \<open>
  For comparison, the failures the loop does retry. When every attempt ends in a
  \<open>RequestException\<close>, all \<open>max_retries\<close> requests are posted, the pauses between them
  are \<open>retry_delay\<close> times 1, 2, ..., and the call ends with the error of the last
  attempt.
\<close>

lemma retry_loop_all_failed:
  assumes "\<forall>a<max_retries cfg. net a = RequestFailed (e a)" and "k < max_retries cfg"
  shows "retry_loop cfg net [k..<max_retries cfg] n slept =
           \<lparr> returned = Inl (QueryFailed (max_retries cfg) (e (max_retries cfg - 1))),
             posts = n + (max_retries cfg - k),
             sleeps = slept @ map (\<lambda>a. retry_delay cfg * (of_nat a + 1)) [k..<max_retries cfg - 1] \<rparr>"
  using assms(2)
proof (induction "max_retries cfg - k" arbitrary: k n slept)
  case 0
  then show ?case by simp
next
  case (Suc d)
  have net: "net k = RequestFailed (e k)" using assms(1) Suc.prems by blast
  have up: "[k..<max_retries cfg] = k # [Suc k..<max_retries cfg]"
    using Suc.prems by (rule upt_conv_Cons)
  show ?case
  proof (cases "Suc k = max_retries cfg")
    case True
    then have last: "int k = int (max_retries cfg) - 1" by simp
    have k: "k = max_retries cfg - 1" using True by simp
    show ?thesis
      unfolding up using net last True k by simp
  next
    case False
    then have lt: "Suc k < max_retries cfg" using Suc.prems by simp
    have notlast: "int k \<noteq> int (max_retries cfg) - 1" using False by linarith
    have d: "d = max_retries cfg - Suc k" using Suc.hyps(2) by simp
    have up2: "[k..<max_retries cfg - Suc 0] = k # [Suc k..<max_retries cfg - Suc 0]"
      using lt by (intro upt_conv_Cons) simp
    show ?thesis
      unfolding up using net notlast Suc.hyps(1) [OF d lt] lt by (simp add: up2)
  qed
qed

lemma retry_all_failed:
  assumes "\<forall>a<max_retries cfg. net a = RequestFailed (e a)" and "0 < max_retries cfg"
  shows "execute_with_retry cfg net =
           \<lparr> returned = Inl (QueryFailed (max_retries cfg) (e (max_retries cfg - 1))),
             posts = max_retries cfg,
             sleeps = map (\<lambda>a. retry_delay cfg * (of_nat a + 1)) [0..<max_retries cfg - 1] \<rparr>"
  using retry_loop_all_failed [OF assms, of 0 "[]"] by (simp add: execute_with_retry_def)

text \<open>With three attempts: three requests, pauses of \<open>retry_delay * 1\<close> and
  \<open>retry_delay * 2\<close>.\<close>

lemma retry_http_example:
  "execute_with_retry example_pagination http_error_net =
     \<lparr> returned = Inl (QueryFailed 3 ''503''), posts = 3, sleeps = [2, 4] \<rparr>"
  by code_simp

text \<open>
  Claim C6 at the failing input. One block holds the two swaps A to B and B to A, a single
  mutual pair: the counter ends at 4, not 2, because the pair is found once from each
  side, and the wash-trading percentage is 200.
\<close>

theorem wash_trading_double_count:
  "suspicious_swap_count [mk_swap ''1'' ''100'' ''0xA'' ''0xB'' ''0xA'',
                          mk_swap ''2'' ''100'' ''0xB'' ''0xA'' ''0xB''] = 4 \<and>
   fst (detect_wash_trading [mk_swap ''1'' ''100'' ''0xA'' ''0xB'' ''0xA'',
                             mk_swap ''2'' ''100'' ''0xB'' ''0xA'' ''0xB'']) = 200"
  by code_simp

section \<open>Pagination\<close>







section \<open>The Gini coefficient\<close>

lemma weighted_sum_from:
  "sum_list (map2 (\<lambda>i x. of_nat i * x) [k..<k + length xs] xs) = wsum_from k xs"
proof (induction xs arbitrary: k)
  case Nil
  then show ?case by simp
next
  case (Cons x xs)
  have e: "[k..<Suc (k + length xs)] = k # [Suc k..<Suc (k + length xs)]"
    by (rule upt_conv_Cons) simp
  show ?case using Cons.IH [of "Suc k"] by (simp add: e del: upt_Suc)
qed

lemma weighted_sum_eq: "weighted_sum xs = wsum_from 1 xs"
  using weighted_sum_from [of 1 xs] by (simp add: weighted_sum_def add.commute)

lemma wsum_shift: "wsum_from (Suc k) xs = wsum_from k xs + sum_list xs"
  by (induction xs arbitrary: k) (simp_all add: algebra_simps)

lemma sum_list_ge_length:
  fixes x :: rat
  shows "\<forall>y\<in>set xs. x \<le> y \<Longrightarrow> of_nat (length xs) * x \<le> sum_list xs"
  by (induction xs) (auto simp: algebra_simps intro: add_mono)

lemma wsum_lower:
  "sorted xs \<Longrightarrow> (of_nat (length xs) + 1) * sum_list xs \<le> 2 * wsum_from 1 xs"
proof (induction xs)
  case Nil
  then show ?case by simp
next
  case (Cons x xs)
  have ih: "(of_nat (length xs) + 1) * sum_list xs \<le> 2 * wsum_from 1 xs"
    using Cons by simp
  have ge: "of_nat (length xs) * x \<le> sum_list xs"
    using Cons.prems by (intro sum_list_ge_length) simp
  have "wsum_from 1 (x # xs) = x + wsum_from 1 xs + sum_list xs"
    using wsum_shift [of 1 xs] by simp
  then show ?case using ih ge by (simp add: algebra_simps)
qed

lemma wsum_upper:
  "\<forall>x\<in>set xs. 0 \<le> x \<Longrightarrow> wsum_from (Suc k) xs \<le> (of_nat k + of_nat (length xs)) * sum_list xs"
proof (induction xs arbitrary: k)
  case Nil
  then show ?case by simp
next
  case (Cons x xs)
  have x0: "0 \<le> x" and s0: "0 \<le> sum_list xs"
    using Cons.prems by (auto intro: sum_list_nonneg)
  have ih: "wsum_from (Suc (Suc k)) xs \<le> (of_nat (Suc k) + of_nat (length xs)) * sum_list xs"
    using Cons.IH [of "Suc k"] Cons.prems by simp
  have "0 \<le> of_nat (length xs) * x" using x0 by simp
  then show ?case using ih s0 by (simp add: algebra_simps)
qed

lemma wsum_replicate:
  "2 * wsum_from (Suc k) (replicate n x) = x * of_nat n * (of_nat n + 2 * of_nat k + 1)"
  by (induction n arbitrary: k) (simp_all add: algebra_simps)

lemma gini_positive:
  assumes "vals \<noteq> []" and "\<forall>v\<in>set vals. 0 < v"
  shows "calculate_gini vals =
           Finite ((2 * wsum_from 1 (sort vals)) / (of_nat (length vals) * sum_list vals)
                    - (of_nat (length vals) + 1) / of_nat (length vals))"
    and "0 < sum_list vals"
proof -
  show pos: "0 < sum_list vals"
    using assms by (induction vals) (auto intro: add_pos_nonneg sum_list_nonneg less_imp_le)
  have "sum_list (sort vals) = sum_list vals"
    by (metis mset_sort sum_mset_sum_list)
  moreover have "of_nat (length vals) * sum_list vals \<noteq> 0"
    using pos assms(1) by simp
  moreover have "sort vals \<noteq> []"
    using assms(1) by (metis length_sort length_0_conv)
  ultimately show "calculate_gini vals =
           Finite ((2 * wsum_from 1 (sort vals)) / (of_nat (length vals) * sum_list vals)
                    - (of_nat (length vals) + 1) / of_nat (length vals))"
    using assms(1) by (simp add: calculate_gini_def Let_def weighted_sum_eq)
qed

text \<open>
  Claim C9, as amended. For every non-empty list of positive liquidity values the Gini
  formula of the concentration analyzer, evaluated in exact arithmetic, is a number
  between 0 and 1, and it is 0 when all values are equal.
\<close>

theorem gini_bounds:
  assumes "vals \<noteq> []" and "\<forall>v\<in>set vals. 0 < v"
  shows "(\<exists>g. calculate_gini vals = Finite g \<and> 0 \<le> g \<and> g \<le> 1) \<and>
         ((\<forall>v\<in>set vals. v = hd vals) \<longrightarrow> calculate_gini vals = Finite 0)"
proof -
  let ?n = "of_nat (length vals) :: rat"
  let ?S = "sum_list vals"
  let ?W = "wsum_from 1 (sort vals)"
  let ?g = "(2 * ?W) / (?n * ?S) - (?n + 1) / ?n"
  have g: "calculate_gini vals = Finite ?g" and S: "0 < ?S"
    using gini_positive [OF assms] by blast+
  have n: "0 < ?n" using assms(1) by simp
  have sumeq: "sum_list (sort vals) = ?S"
    by (metis mset_sort sum_mset_sum_list)
  have lower: "(?n + 1) * ?S \<le> 2 * ?W"
    using wsum_lower [of "sort vals"] sumeq by simp
  have nonneg: "\<forall>x\<in>set (sort vals). 0 \<le> x"
    using assms(2) by (auto intro: less_imp_le)
  have upper: "?W \<le> ?n * ?S"
    using wsum_upper [OF nonneg, of 0] sumeq by simp
  have geq: "?g = (2 * ?W - (?n + 1) * ?S) / (?n * ?S)"
    using n S by (simp add: field_simps)
  have g0: "0 \<le> ?g"
    unfolding geq using lower n S by (intro divide_nonneg_pos) simp_all
  have "?g \<le> (2 * (?n * ?S) - (?n + 1) * ?S) / (?n * ?S)"
    unfolding geq using upper n S by (intro divide_right_mono) simp_all
  also have "\<dots> = (?n - 1) / ?n"
    using n S by (simp add: field_simps)
  also have "\<dots> \<le> 1" using n by simp
  finally have g1: "?g \<le> 1" .
  have equal: "calculate_gini vals = Finite 0" if eq: "\<forall>v\<in>set vals. v = hd vals"
  proof -
    have rep: "vals = replicate (length vals) (hd vals)"
      using eq by (simp add: replicate_length_same)
    have srt: "sort vals = vals"
      using rep by (metis sorted_replicate sorted_sort_id)
    have "2 * wsum_from (Suc 0) (replicate (length vals) (hd vals)) =
            hd vals * ?n * (?n + 2 * of_nat 0 + 1)"
      by (rule wsum_replicate)
    then have W: "2 * ?W = hd vals * ?n * (?n + 1)"
      using rep srt by simp
    have Seq: "?S = ?n * hd vals"
      using rep by (metis sum_list_replicate)
    have h0: "hd vals \<noteq> 0"
      using assms by (cases vals) auto
    have n0: "?n \<noteq> 0" using n by simp
    have "?g = (hd vals * ?n * (?n + 1)) / (?n * (?n * hd vals)) - (?n + 1) / ?n"
      by (simp only: W Seq)
    also have "\<dots> = 0"
      using h0 n0 by (simp add: field_simps)
    finally show ?thesis using g by simp
  qed
  show ?thesis using g g0 g1 equal by blast
qed

text \<open>
  C9 at ten equal positions of liquidity 100, and the coefficient of the values 3, 1, 2.
\<close>

theorem gini_bounds_witness:
  "replicate 10 (100::rat) \<noteq> [] \<and> calculate_gini (replicate 10 100) = Finite 0 \<and>
   calculate_gini [3, 1, 2] = Finite (2 / 9)"
proof -
  have "calculate_gini [3, 1, 2] = Finite (2 / 9)"
    by code_simp
  then show ?thesis
    using gini_bounds [of "replicate 10 100"] by simp
qed

text \<open>
  Claim C9 as stated fails for the value the analyzer computes, which is a double: two
  equal positions of liquidity 3111044239071767 (below \<open>2^53\<close>, so the conversion to
  float is exact) give a Gini coefficient of \<open>-2^-52\<close>, neither 0 nor within the unit
  interval. The sum \<open>x + 2x\<close> is rounded down, and the quotient by \<open>2x\<close> falls one
  unit in the last place below 3/2.
\<close>

theorem gini_binary64_counterexample:
  "calculate_gini_binary64 sequential_sum [3111044239071767, 3111044239071767] =
     Finite (- (1 / 2 ^ 52))"
  by code_simp

section \<open>Analyzer flags\<close>

lemma concentration_flags:
  "concentration_generate_risk_flags th g h t d \<noteq> [] \<and>
   (concentration_generate_risk_flags th g h t d = [''LOW_RISK''] \<or>
    set (concentration_generate_risk_flags th g h t d) \<subseteq> concentration_threshold_flags)"
  by (simp add: concentration_generate_risk_flags_def concentration_threshold_flags_def Let_def)

lemma liquidity_flags:
  "liquidity_generate_risk_flags th (Some a) (Some b) (Some c) (Some d) \<noteq> [] \<and>
   (liquidity_generate_risk_flags th (Some a) (Some b) (Some c) (Some d) = [''LOW_RISK''] \<or>
    set (liquidity_generate_risk_flags th (Some a) (Some b) (Some c) (Some d)) \<subseteq> liquidity_threshold_flags)"
  by (simp add: liquidity_generate_risk_flags_def liquidity_threshold_flags_def Let_def)

lemma market_flags:
  "market_generate_risk_flags th u c \<noteq> [] \<and>
   (market_generate_risk_flags th u c = [''LOW_RISK''] \<or>
    set (market_generate_risk_flags th u c) \<subseteq> market_threshold_flags)"
  by (simp add: market_generate_risk_flags_def market_threshold_flags_def Let_def)

lemma behavioral_flags:
  "behavioral_generate_risk_flags th w m \<noteq> [] \<and>
   (behavioral_generate_risk_flags th w m = [''LOW_RISK''] \<or>
    set (behavioral_generate_risk_flags th w m) \<subseteq> behavioral_threshold_flags)"
  by (simp add: behavioral_generate_risk_flags_def behavioral_threshold_flags_def Let_def)

lemma concentration_flags_ok:
  "concentration_analyze th days now fetched = Inr r \<Longrightarrow>
     flags_ok (fetched = Inr []) concentration_threshold_flags r"
  using concentration_flags
  by (auto simp: concentration_analyze_def flags_ok_def Let_def
           split: sum.splits if_splits np_float.splits)

lemma liquidity_flags_ok:
  "liquidity_analyze th np_sqrt ct ts fetched vol = Inr r \<Longrightarrow>
     flags_ok (fetched = Inr []) liquidity_threshold_flags r"
  using liquidity_flags
  by (auto simp: liquidity_analyze_def flags_ok_def Let_def split: sum.splits if_splits)

lemma market_flags_ok:
  "market_analyze th corr fetched = Inr r \<Longrightarrow>
     flags_ok (fetched = Inr []) market_threshold_flags r"
  using market_flags
  by (auto simp: market_analyze_def flags_ok_def Let_def split: sum.splits if_splits)

lemma behavioral_flags_ok:
  "behavioral_analyze th n fetched = Inr r \<Longrightarrow>
     flags_ok (case fetched of Inl e \<Rightarrow> False | Inr s \<Rightarrow> take n s = [])
       behavioral_threshold_flags r"
  using behavioral_flags
  by (auto simp: behavioral_analyze_def behavioral_analyze_swaps_def flags_ok_def Let_def
           split: sum.splits if_splits)

text \<open>
  Claim C5. Whenever one of the four analyzers returns a result, its \<open>risk_flags\<close> is
  there and is not the empty list: \<open>["NO_DATA"]\<close> when the fetched data was empty, and
  otherwise either the sentinel \<open>["LOW_RISK"]\<close> or a non-empty list of the analyzer's
  threshold flags.
\<close>

theorem analyzers_flags_nonempty:
  "(concentration_analyze cth days now fetched_positions = Inr r1 \<longrightarrow>
      flags_ok (fetched_positions = Inr []) concentration_threshold_flags r1) \<and>
   (liquidity_analyze lth np_sqrt current_tick tick_spacing fetched_ticks tvl_volatility = Inr r2 \<longrightarrow>
      flags_ok (fetched_ticks = Inr []) liquidity_threshold_flags r2) \<and>
   (market_analyze mth np_corrcoef fetched_days = Inr r3 \<longrightarrow>
      flags_ok (fetched_days = Inr []) market_threshold_flags r3) \<and>
   (behavioral_analyze bth swap_limit fetched_swaps = Inr r4 \<longrightarrow>
      flags_ok (case fetched_swaps of Inl e \<Rightarrow> False | Inr s \<Rightarrow> take swap_limit s = [])
        behavioral_threshold_flags r4)"
  using concentration_flags_ok liquidity_flags_ok market_flags_ok behavioral_flags_ok
  by blast

text \<open>
  C5 at concrete inputs: five equal positions and two mutual swaps on the success path, no
  ticks and no day data on the error path.
\<close>

theorem analyzers_flags_nonempty_witness:
  "concentration_analyze example_concentration_thresholds example_days 0 (Inr example_db) =
     Inr example_concentration_result \<and>
   risk_flags example_concentration_result =
     Some [''CRITICAL_TOP10_DOMINANCE'', ''HIGH_HHI'', ''HIGH_MERCENARY_LIQUIDITY''] \<and>
   liquidity_analyze example_liquidity_thresholds (\<lambda>x. x) 0 953 (Inr []) (Inr 0) =
     Inr example_no_ticks_result \<and>
   risk_flags example_no_ticks_result = Some [''NO_DATA''] \<and>
   market_analyze example_market_thresholds (\<lambda>xs ys. 0) (Inr []) = Inr example_no_days_result \<and>
   risk_flags example_no_days_result = Some [''NO_DATA''] \<and>
   behavioral_analyze example_behavioral_thresholds 2000 (Inr example_swaps) =
     Inr example_behavioral_result \<and>
   risk_flags example_behavioral_result = Some [''CRITICAL_WASH_TRADING'']"
proof -
  have c: "concentration_analyze example_concentration_thresholds example_days 0 (Inr example_db) =
     Inr example_concentration_result"
    by code_simp
  have l: "liquidity_analyze example_liquidity_thresholds (\<lambda>x. x) 0 953 (Inr []) (Inr 0) =
     Inr example_no_ticks_result"
    by (simp add: liquidity_analyze_def example_no_ticks_result_def)
  have m: "market_analyze example_market_thresholds (\<lambda>xs ys. 0) (Inr []) = Inr example_no_days_result"
    by (simp add: market_analyze_def example_no_days_result_def)
  have b: "behavioral_analyze example_behavioral_thresholds 2000 (Inr example_swaps) =
     Inr example_behavioral_result"
    by code_simp
  show ?thesis
    using analyzers_flags_nonempty [of example_concentration_thresholds example_days 0
            "Inr example_db" example_concentration_result
            example_liquidity_thresholds "\<lambda>x. x" 0 953 "Inr []" "Inr 0" example_no_ticks_result
            example_market_thresholds "\<lambda>xs ys. 0" "Inr []" example_no_days_result
            example_behavioral_thresholds 2000 "Inr example_swaps" example_behavioral_result]
          c l m b
    by (simp add: example_concentration_result_def example_no_ticks_result_def
          example_no_days_result_def example_behavioral_result_def)
qed

section \<open>Orchestrator\<close>

text \<open>
  Claim C8, as amended. An agent that is not in the discovery table gets the placeholder
  result, with the answer "<agent> unavailable" and the score 0, and the request goes on.
  The final score is the float mean of the sub-agent scores that count, and a score
  counts when it is neither missing nor zero: with two such scores it is their sum
  halved, with one it is that score, with none it is 0. So under the routing decision
  \<open>both\<close> an agent that was not discovered, or whose call failed, leaves the other
  agent's score as the composite, not half of it; and a score of 0 that an agent did
  return is left out of the mean in the same way.
\<close>

theorem router_missing_agent:
  "(remote ''pool_risk'' = None \<longrightarrow>
      invoke_pool_risk remote =
        \<lparr> agent_answer = ''Pool Risk agent unavailable'',
          agent_metadata = JDict [(''error'', JStr ''Agent not discovered'')],
          agent_risk_score = Some 0 \<rparr>) \<and>
   (remote ''token_intelligence'' = None \<longrightarrow>
      invoke_token_intel remote =
        \<lparr> agent_answer = ''Token Intelligence agent unavailable'',
          agent_metadata = JDict [(''error'', JStr ''Agent not discovered'')],
          agent_risk_score = Some 0 \<rparr>) \<and>
   (has_score (pool_risk_result st) x \<and> has_score (token_intel_result st) y \<and> fl x = x \<longrightarrow>
      out_risk_score (finalize_output st) = fl (fl (x + y) / 2)) \<and>
   (has_score (pool_risk_result st) x \<and> no_score (token_intel_result st) \<and> fl x = x \<longrightarrow>
      out_risk_score (finalize_output st) = x) \<and>
   (no_score (pool_risk_result st) \<and> has_score (token_intel_result st) y \<and> fl y = y \<longrightarrow>
      out_risk_score (finalize_output st) = y) \<and>
   (no_score (pool_risk_result st) \<and> no_score (token_intel_result st) \<longrightarrow>
      out_risk_score (finalize_output st) = 0) \<and>
   out_composite_risk_score (finalize_output st) = out_risk_score (finalize_output st) \<and>
   ((remote ''pool_risk'' = None \<or> (\<exists>e. remote ''pool_risk'' = Some (Raises e))) \<and>
    remote ''token_intelligence'' = Some (Returns t) \<and> agent_risk_score t = Some s \<and> fl s = s \<longrightarrow>
      out_risk_score (run_orchestrator remote ''both'' synthesized) = s) \<and>
   ((remote ''token_intelligence'' = None \<or> (\<exists>e. remote ''token_intelligence'' = Some (Raises e))) \<and>
    remote ''pool_risk'' = Some (Returns p) \<and> agent_risk_score p = Some s \<and> fl s = s \<longrightarrow>
      out_risk_score (run_orchestrator remote ''both'' synthesized) = s) \<and>
   (remote ''pool_risk'' = None \<and> remote ''token_intelligence'' = None \<longrightarrow>
      out_risk_score (run_orchestrator remote ''both'' synthesized) = 0)"
proof -
  have placeholders:
    "(remote ''pool_risk'' = None \<longrightarrow>
      invoke_pool_risk remote =
        \<lparr> agent_answer = ''Pool Risk agent unavailable'',
          agent_metadata = JDict [(''error'', JStr ''Agent not discovered'')],
          agent_risk_score = Some 0 \<rparr>) \<and>
     (remote ''token_intelligence'' = None \<longrightarrow>
      invoke_token_intel remote =
        \<lparr> agent_answer = ''Token Intelligence agent unavailable'',
          agent_metadata = JDict [(''error'', JStr ''Agent not discovered'')],
          agent_risk_score = Some 0 \<rparr>)"
    by (simp add: invoke_pool_risk_def invoke_token_intel_def)
  have both: "has_score (pool_risk_result st) x \<and> has_score (token_intel_result st) y \<and> fl x = x \<longrightarrow>
      out_risk_score (finalize_output st) = fl (fl (x + y) / 2)"
    by (auto simp: has_score_def finalize_output_def truthy_score_def py_sum_def Let_def
             split: option.splits)
  have pool_only: "has_score (pool_risk_result st) x \<and> no_score (token_intel_result st) \<and> fl x = x \<longrightarrow>
      out_risk_score (finalize_output st) = x"
    by (auto simp: has_score_def no_score_def finalize_output_def truthy_score_def py_sum_def Let_def
             split: option.splits)
  have token_only: "no_score (pool_risk_result st) \<and> has_score (token_intel_result st) y \<and> fl y = y \<longrightarrow>
      out_risk_score (finalize_output st) = y"
    by (auto simp: has_score_def no_score_def finalize_output_def truthy_score_def py_sum_def Let_def
             split: option.splits)
  have none: "no_score (pool_risk_result st) \<and> no_score (token_intel_result st) \<longrightarrow>
      out_risk_score (finalize_output st) = 0"
    by (auto simp: no_score_def finalize_output_def truthy_score_def Let_def split: option.splits)
  have same: "out_composite_risk_score (finalize_output st) = out_risk_score (finalize_output st)"
    by (simp add: finalize_output_def Let_def)
  have r1: "(remote ''pool_risk'' = None \<or> (\<exists>e. remote ''pool_risk'' = Some (Raises e))) \<and>
    remote ''token_intelligence'' = Some (Returns t) \<and> agent_risk_score t = Some s \<and> fl s = s \<longrightarrow>
      out_risk_score (run_orchestrator remote ''both'' synthesized) = s"
    by (auto simp: invoke_pool_risk_def invoke_token_intel_def finalize_output_def
          run_orchestrator_def truthy_score_def py_sum_def Let_def)
  have r2: "(remote ''token_intelligence'' = None \<or> (\<exists>e. remote ''token_intelligence'' = Some (Raises e))) \<and>
    remote ''pool_risk'' = Some (Returns p) \<and> agent_risk_score p = Some s \<and> fl s = s \<longrightarrow>
      out_risk_score (run_orchestrator remote ''both'' synthesized) = s"
    by (auto simp: invoke_pool_risk_def invoke_token_intel_def finalize_output_def
          run_orchestrator_def truthy_score_def py_sum_def Let_def)
  have r3: "remote ''pool_risk'' = None \<and> remote ''token_intelligence'' = None \<longrightarrow>
      out_risk_score (run_orchestrator remote ''both'' synthesized) = 0"
    by (auto simp: invoke_pool_risk_def invoke_token_intel_def finalize_output_def
          run_orchestrator_def truthy_score_def Let_def)
  show ?thesis
    using placeholders both pool_only token_only none same r1 r2 r3 by blast
qed

text \<open>
  C8 with the pool agent undiscovered and a token agent that returns the score 60.
\<close>

theorem router_missing_agent_witness:
  "example_token_agent ''pool_risk'' = None \<and> fl 60 = 60 \<and>
   agent_answer (invoke_pool_risk example_token_agent) = ''Pool Risk agent unavailable'' \<and>
   agent_risk_score (invoke_pool_risk example_token_agent) = Some 0 \<and>
   out_risk_score (run_orchestrator example_token_agent ''both'' ''text'') = 60"
proof -
  have a: "example_token_agent ''pool_risk'' = None"
    by (simp add: example_token_agent_def)
  have b: "example_token_agent ''token_intelligence'' =
             Some (Returns \<lparr> agent_answer = ''token ok'', agent_metadata = JDict [],
                              agent_risk_score = Some 60 \<rparr>)"
    by (simp add: example_token_agent_def)
  have c: "fl 60 = 60"
    by code_simp
  show ?thesis
    using router_missing_agent [where remote = example_token_agent and s = 60
            and t = "\<lparr> agent_answer = ''token ok'', agent_metadata = JDict [], agent_risk_score = Some 60 \<rparr>"
            and synthesized = "''text''"] a b c
    by simp
qed

text \<open>
  Claim C8 as stated fails: both agents are discovered and answer, the pool agent with the
  score 0 and the token agent with 60. Both scores are present, their mean is 30, and the
  composite is 60: the pool agent's 0 is dropped like a missing score.
\<close>

theorem router_zero_score_counterexample:
  "out_risk_score (run_orchestrator example_zero_pool_agents ''both'' ''text'') = 60 \<and>
   out_risk_score (run_orchestrator example_zero_pool_agents ''both'' ''text'') \<noteq> (0 + 60) / 2"
  by code_simp

end
